theory Spec2Isabelle
  imports Complex_Main
begin

section \<open>Data model of \<open>src/pages/SignDocument.tsx\<close>\<close>

text \<open>
  Strings are \<open>string\<close>; a character stands for one code unit below 256. Coordinates
  are JavaScript numbers and are taken as \<open>real\<close>, without rounding; page numbers and
  indices, which the code only uses as array positions, are \<open>int\<close> and \<open>nat\<close>. A
  \<open>FormValues\<close> object is given by its own properties, a map from keys to strings.
\<close>

datatype FieldType = Signature | Text | Date

record Position =
  pos_x :: real
  pos_y :: real
  pageNumber :: int

record FormField =
  field_type :: FieldType
  position :: Position
  label :: string
  required :: bool
  field_id :: string

record Template =
  t_id :: string
  t_name :: string
  t_fields :: "FormField list"
  t_file_path :: string

type_synonym FormValues = "string \<rightharpoonup> string"

record SignedDocument =
  doc_id :: string
  template_id :: string
  form_values :: FormValues
  created_at :: string
  doc_template :: Template

subsection \<open>JavaScript string helpers\<close>

text \<open>\<open>String.prototype.trim\<close>: the white space and line terminator code units below 256.\<close>

definition is_whitespace :: "char \<Rightarrow> bool" where
  "is_whitespace c \<longleftrightarrow>
     c \<in> set [CHR 0x09, CHR 0x0A, CHR 0x0B, CHR 0x0C, CHR 0x0D, CHR 0x20, CHR 0xA0]"

definition trim :: "string \<Rightarrow> string" where
  "trim s = rev (dropWhile is_whitespace (rev (dropWhile is_whitespace s)))"

text \<open>\<open>Array.prototype.join\<close>.\<close>

fun join :: "string \<Rightarrow> string list \<Rightarrow> string" where
  "join sep [] = []"
| "join sep [s] = s"
| "join sep (s # t # ss) = s @ sep @ join sep (t # ss)"

text \<open>
  The route parameter and the URL are a string or absent: falsy when absent or empty,
  and \<open>v || ''\<close>.
\<close>

definition falsy :: "string option \<Rightarrow> bool" where
  "falsy v \<longleftrightarrow> (case v of None \<Rightarrow> True | Some s \<Rightarrow> s = [])"

definition or_empty :: "string option \<Rightarrow> string" where
  "or_empty v = (case v of None \<Rightarrow> [] | Some s \<Rightarrow> s)"

subsection \<open>Reading a value object\<close>

text \<open>
  \<open>formValues\<close> and \<open>form_values\<close> are plain objects, so \<open>obj[key]\<close> looks through
  \<open>Object.prototype\<close>: a key the object does not own reads as the inherited member when it
  names one (a function, or the prototype itself for \<open>__proto__\<close>: truthy, not a string),
  and as \<open>undefined\<close> otherwise.
\<close>

datatype JsValue = Undefined | Str string | Inherited

definition object_prototype_members :: "string list" where
  "object_prototype_members =
     [''constructor'', ''hasOwnProperty'', ''isPrototypeOf'', ''propertyIsEnumerable'',
      ''toLocaleString'', ''toString'', ''valueOf'', ''__proto__'',
      ''__defineGetter__'', ''__defineSetter__'', ''__lookupGetter__'', ''__lookupSetter__'']"

definition js_get :: "FormValues \<Rightarrow> string \<Rightarrow> JsValue" where
  "js_get obj key =
     (case obj key of
        Some v \<Rightarrow> Str v
      | None \<Rightarrow> if key \<in> set object_prototype_members then Inherited else Undefined)"

definition truthy :: "JsValue \<Rightarrow> bool" where
  "truthy v \<longleftrightarrow> (case v of Undefined \<Rightarrow> False | Str s \<Rightarrow> s \<noteq> [] | Inherited \<Rightarrow> True)"

text \<open>\<open>value || ''\<close>.\<close>

definition value_or_empty :: "JsValue \<Rightarrow> JsValue" where
  "value_or_empty v = (if truthy v then v else Str [])"

text \<open>What a handler or a library call throws.\<close>

datatype Thrown =
    TypeError
  | EncodingError
  | StorageError string
  | Error string
  | LoadError

section \<open>Component state\<close>

text \<open>
  The \<open>useState\<close> cells of \<open>SignDocument\<close>, with the route parameter \<open>templateId\<close> and
  the query flag \<open>isSigningMode\<close>.
\<close>

record state =
  templateId :: "string option"
  isSigningMode :: bool
  template :: "Template option"
  pdfUrl :: "string option"
  formValues :: FormValues
  showSignaturePad :: bool
  activeField :: "string option"
  isSaving :: bool
  error :: "string option"
  success :: bool
  currentPage :: int
  showQRCode :: bool
  currentFieldIndex :: nat
  signedDocument :: "SignedDocument option"
  isMobile :: bool
  mobileSignatureComplete :: bool

section \<open>Validation\<close>

text \<open>
  The predicate of the filter in \<open>validateForm\<close>,
  \<open>field.required && (!value || value.trim() === '')\<close>: \<open>trim\<close> is only reached for a
  required field with a truthy value, and is not a function of an inherited member.
\<close>

definition is_missing :: "FormValues \<Rightarrow> FormField \<Rightarrow> Thrown + bool" where
  "is_missing vals field =
     (let val = js_get vals (label field)
      in if \<not> required field then Inr False
         else if \<not> truthy val then Inr True
         else (case val of
                 Str s \<Rightarrow> Inr (trim s = [])
               | _ \<Rightarrow> Inl TypeError))"

text \<open>\<open>Array.prototype.filter\<close> with a callback that may throw: the first throw ends it.\<close>

fun filter_throwing :: "('a \<Rightarrow> Thrown + bool) \<Rightarrow> 'a list \<Rightarrow> Thrown + 'a list" where
  "filter_throwing p [] = Inr []"
| "filter_throwing p (x # xs) =
     (case p x of
        Inl e \<Rightarrow> Inl e
      | Inr keep \<Rightarrow>
          (case filter_throwing p xs of
             Inl e \<Rightarrow> Inl e
           | Inr ys \<Rightarrow> Inr (if keep then x # ys else ys)))"

definition missingFields :: "Template \<Rightarrow> FormValues \<Rightarrow> Thrown + FormField list" where
  "missingFields t vals = filter_throwing (is_missing vals) (t_fields t)"

definition validation_message :: "FormField list \<Rightarrow> string" where
  "validation_message missing =
     ''Please complete all required fields: '' @ join '', '' (map label missing)"

text \<open>
  \<open>validateForm\<close>: \<open>Inl\<close> is what it throws, \<open>Inr\<close> its verdict and the state after its
  \<open>setError\<close>.
\<close>

definition validateForm :: "state \<Rightarrow> Thrown + bool \<times> state" where
  "validateForm s =
     (case template s of
        None \<Rightarrow> Inr (False, s)
      | Some t \<Rightarrow>
          (case missingFields t (formValues s) of
             Inl e \<Rightarrow> Inl e
           | Inr missing \<Rightarrow>
               if length missing > 0
               then Inr (False, s\<lparr>error := Some (validation_message missing)\<rparr>)
               else Inr (True, s)))"

text \<open>The spec's condition: the field has a value that is non-empty after trimming.\<close>

definition has_value :: "FormValues \<Rightarrow> FormField \<Rightarrow> bool" where
  "has_value vals field \<longleftrightarrow>
     (case vals (label field) of None \<Rightarrow> False | Some v \<Rightarrow> trim v \<noteq> [])"

section \<open>Flattening: the field loop of \<open>downloadSignedPdf\<close>\<close>

text \<open>
  The PDF library and the browser are outside the repository. A page is its height and
  the drawing operations handed to it, in order; an embedded image is its native size.
  What the library and the browser accept is a parameter: \<open>PDFDocument.load\<close>, \<open>atob\<close>
  and \<open>embedPng\<close> return \<open>None\<close> where the call throws, and \<open>canDrawText\<close> tells whether
  \<open>page.drawText\<close> with the embedded Helvetica accepts a string (it throws on a character
  the font's encoding does not have).
\<close>

datatype Font = Helvetica

datatype Color = rgb real real real

record PngImage =
  png_width :: real
  png_height :: real

datatype DrawOp =
    DrawText string real real real Font Color
  | DrawImage PngImage real real real real

record Page =
  page_height :: real
  page_content :: "DrawOp list"

record PdfLib =
  load :: "string \<Rightarrow> Page list option"
  atob :: "string \<Rightarrow> string option"
  embedPng :: "string \<Rightarrow> PngImage option"
  canDrawText :: "string \<Rightarrow> bool"

text \<open>\<open>supabase.storage.from('templates').download(path)\<close> answers \<open>{data, error}\<close>.\<close>

type_synonym 'a reply = "'a option \<times> string option"

record Storage =
  download :: "string \<Rightarrow> string reply"

record Dims =
  dims_width :: real
  dims_height :: real

text \<open>\<open>PDFImage.scale(factor)\<close>.\<close>

definition scale :: "PngImage \<Rightarrow> real \<Rightarrow> Dims" where
  "scale img factor =
     \<lparr>dims_width = png_width img * factor, dims_height = png_height img * factor\<rparr>"

text \<open>\<open>String.prototype.split\<close> on a one-character separator.\<close>

fun split :: "char \<Rightarrow> string \<Rightarrow> string list" where
  "split sep [] = [] # []"
| "split sep (c # cs) =
     (if c = sep then [] # split sep cs
      else (case split sep cs of
              [] \<Rightarrow> [c] # []
            | p # ps \<Rightarrow> (c # p) # ps))"

text \<open>An array read \<open>xs[i]\<close>: \<open>undefined\<close> out of range.\<close>

definition at_index :: "'a list \<Rightarrow> nat \<Rightarrow> 'a option" where
  "at_index xs i = (if i < length xs then Some (xs ! i) else None)"

text \<open>The argument conversion of \<open>atob\<close>: \<open>undefined\<close> becomes the string \<open>undefined\<close>.\<close>

definition to_DOMString :: "string option \<Rightarrow> string" where
  "to_DOMString v = (case v of None \<Rightarrow> ''undefined'' | Some s \<Rightarrow> s)"

text \<open>
  The first three statements of the \<open>try\<close> block on a string: \<open>None\<close> when one of them
  throws. \<open>Uint8Array.from\<close> over the decoded characters does not throw.
\<close>

definition decode_signature :: "PdfLib \<Rightarrow> string \<Rightarrow> PngImage option" where
  "decode_signature L val =
     (let base64Data = at_index (split CHR '','' val) 1
      in case atob L (to_DOMString base64Data) of
           None \<Rightarrow> None
         | Some signatureBytes \<Rightarrow> embedPng L signatureBytes)"

text \<open>\<open>pages[field.position.pageNumber - 1]\<close>.\<close>

definition page_at :: "Page list \<Rightarrow> int \<Rightarrow> Page option" where
  "page_at pgs n =
     (if 0 \<le> n - 1 \<and> n - 1 < int (length pgs) then Some (pgs ! nat (n - 1)) else None)"

definition drawImage :: "Page \<Rightarrow> PngImage \<Rightarrow> real \<Rightarrow> real \<Rightarrow> real \<Rightarrow> real \<Rightarrow> Page" where
  "drawImage page img x y w h =
     page\<lparr>page_content := page_content page @ [DrawImage img x y w h]\<rparr>"

text \<open>
  \<open>page.drawText\<close>: a \<open>TypeError\<close> for a text that is not a string, an error of the font's
  encoder for a string it cannot encode.
\<close>

definition drawText :: "PdfLib \<Rightarrow> Page \<Rightarrow> JsValue \<Rightarrow> real \<Rightarrow> real \<Rightarrow> real \<Rightarrow> Font \<Rightarrow> Color \<Rightarrow> Thrown + Page" where
  "drawText L page txt x y sz font color =
     (case txt of
        Str s \<Rightarrow>
          if canDrawText L s
          then Inr (page\<lparr>page_content := page_content page @ [DrawText s x y sz font color]\<rparr>)
          else Inl EncodingError
      | _ \<Rightarrow> Inl TypeError)"

text \<open>The document being flattened and the lines written by \<open>console.error\<close>.\<close>

record FlattenState =
  pages :: "Page list"
  console :: "string list"

text \<open>The page object is mutated in place: the array keeps it at its index.\<close>

definition put_page :: "FlattenState \<Rightarrow> int \<Rightarrow> Page \<Rightarrow> FlattenState" where
  "put_page st n page = st\<lparr>pages := (pages st)[nat (n - 1) := page]\<rparr>"

text \<open>
  The body of the inner \<open>try\<close> up to \<open>embedPng\<close>: an inherited member has no \<open>split\<close>, which
  throws like a failed decoding.
\<close>

definition embed_signature :: "PdfLib \<Rightarrow> JsValue \<Rightarrow> PngImage option" where
  "embed_signature L val = (case val of Str s \<Rightarrow> decode_signature L s | _ \<Rightarrow> None)"

text \<open>
  One iteration of \<open>for (const field of doc.template.fields)\<close>: \<open>Inl\<close> is what leaves the
  loop for the outer \<open>catch\<close>. Only \<open>drawText\<close> is outside the inner \<open>try\<close>.
\<close>

definition overlay_field :: "PdfLib \<Rightarrow> FormValues \<Rightarrow> FlattenState \<Rightarrow> FormField \<Rightarrow> Thrown + FlattenState" where
  "overlay_field L vals st field =
     (let n = pageNumber (position field)
      in case page_at (pages st) n of
           None \<Rightarrow> Inr st
         | Some page \<Rightarrow>
             (let val = value_or_empty (js_get vals (label field))
              in if field_type field = Signature \<and> truthy val
                 then (case embed_signature L val of
                         None \<Rightarrow> Inr (st\<lparr>console := console st @ [''Error embedding signature:'']\<rparr>)
                       | Some signatureImage \<Rightarrow>
                           (let signatureDims = scale signatureImage (1 / 2)
                            in Inr (put_page st n
                                 (drawImage page signatureImage
                                    (pos_x (position field))
                                    (page_height page - pos_y (position field)
                                       - dims_height signatureDims)
                                    (dims_width signatureDims)
                                    (dims_height signatureDims)))))
                 else (case drawText L page val
                              (pos_x (position field))
                              (page_height page - pos_y (position field))
                              12 Helvetica (rgb 0 0 0) of
                         Inl e \<Rightarrow> Inl e
                       | Inr page' \<Rightarrow> Inr (put_page st n page'))))"

fun flatten_fields :: "PdfLib \<Rightarrow> FormValues \<Rightarrow> FormField list \<Rightarrow> FlattenState \<Rightarrow> Thrown + FlattenState" where
  "flatten_fields L vals [] st = Inr st"
| "flatten_fields L vals (field # fs) st =
     (case overlay_field L vals st field of
        Inl e \<Rightarrow> Inl e
      | Inr st' \<Rightarrow> flatten_fields L vals fs st')"

text \<open>
  \<open>downloadSignedPdf\<close> up to \<open>pdfDoc.save()\<close>: \<open>Inl\<close> is what its outer \<open>catch\<close> rethrows
  (the storage error, its own \<open>Error\<close>, what \<open>PDFDocument.load\<close> threw, or what left the
  field loop), \<open>Inr\<close> the document handed to \<open>save\<close> with the console lines of the loop.
\<close>

definition downloadSignedPdf :: "Storage \<Rightarrow> PdfLib \<Rightarrow> SignedDocument \<Rightarrow> Thrown + FlattenState" where
  "downloadSignedPdf S L doc =
     (case download S (t_file_path (doc_template doc)) of
        (_, Some downloadError) \<Rightarrow> Inl (StorageError downloadError)
      | (None, None) \<Rightarrow> Inl (Error ''Could not download the file'')
      | (Some pdfBytes, None) \<Rightarrow>
          (case load L pdfBytes of
             None \<Rightarrow> Inl LoadError
           | Some pgs \<Rightarrow>
               flatten_fields L (form_values doc) (t_fields (doc_template doc))
                 \<lparr>pages = pgs, console = []\<rparr>))"

section \<open>The relational store and the realtime channel\<close>

text \<open>
  The store is outside the repository. Its behaviour is a parameter: each call is a
  function of the persisted \<open>signed_documents\<close> table and answers \<open>{data, error}\<close>;
  an insert also gives the table afterwards. The world keeps the table and the requests
  issued so far next to the component state.
\<close>

record InsertRow =
  ins_template_id :: string
  ins_form_values :: FormValues
  ins_user_id :: "string option"

record SignedRow =
  row_id :: string
  row_template_id :: string
  row_form_values :: FormValues
  row_created_at :: string

datatype Request =
    InsertRequest InsertRow
  | SelectDocumentRequest string
  | SelectTemplateRequest "string option"
  | PublicUrlRequest string

record Backend =
  insert_signed_document :: "SignedRow list \<Rightarrow> InsertRow \<Rightarrow> SignedRow list \<times> SignedRow list reply"
  select_signed_document :: "SignedRow list \<Rightarrow> string \<Rightarrow> SignedDocument reply"
  select_template :: "string option \<Rightarrow> Template reply"
  getPublicUrl :: "string \<Rightarrow> string \<times> string option"

record world =
  ui :: state
  signed_documents :: "SignedRow list"
  requests :: "Request list"

text \<open>The \<open>new\<close> row of an \<open>INSERT\<close> notification, as far as the handler reads it.\<close>

record InsertPayload =
  new_id :: string
  new_template_id :: string

text \<open>\<open>getSignedDocument\<close>: \<open>Inl\<close> is the error it throws.\<close>

definition getSignedDocument :: "Backend \<Rightarrow> SignedRow list \<Rightarrow> string \<Rightarrow> string + SignedDocument option" where
  "getSignedDocument B tbl documentId =
     (case select_signed_document B tbl documentId of
        (_, Some e) \<Rightarrow> Inl e
      | (d, None) \<Rightarrow> Inr d)"

section \<open>Handlers of the component\<close>

text \<open>The state of the first render: the \<open>useState\<close> initial values.\<close>

definition initial_state :: "string option \<Rightarrow> bool \<Rightarrow> int \<Rightarrow> state" where
  "initial_state tid signing innerWidth =
     \<lparr>templateId = tid, isSigningMode = signing, template = None, pdfUrl = None,
      formValues = Map.empty, showSignaturePad = False, activeField = None,
      isSaving = False, error = None, success = False, currentPage = 1,
      showQRCode = False, currentFieldIndex = 0, signedDocument = None,
      isMobile = (innerWidth \<le> 768), mobileSignatureComplete = False\<rparr>"

definition handleResize :: "int \<Rightarrow> state \<Rightarrow> state" where
  "handleResize innerWidth s = s\<lparr>isMobile := (innerWidth \<le> 768)\<rparr>"

definition load_failed :: string where
  "load_failed = ''Failed to load document. Please try again.''"

definition loadTemplate :: "Backend \<Rightarrow> world \<Rightarrow> world" where
  "loadTemplate B w =
     (let s = ui w;
          w1 = w\<lparr>requests := requests w @ [SelectTemplateRequest (templateId s)]\<rparr>
      in case select_template B (templateId s) of
           (_, Some templateError) \<Rightarrow> w1\<lparr>ui := s\<lparr>error := Some load_failed\<rparr>\<rparr>
         | (None, None) \<Rightarrow> w1\<lparr>ui := s\<lparr>error := Some load_failed\<rparr>\<rparr>
         | (Some templateData, None) \<Rightarrow>
             (let s1 = s\<lparr>template := Some templateData\<rparr>;
                  w2 = w1\<lparr>requests := requests w1 @ [PublicUrlRequest (t_file_path templateData)]\<rparr>
              in case getPublicUrl B (t_file_path templateData) of
                   (_, Some urlError) \<Rightarrow> w2\<lparr>ui := s1\<lparr>error := Some load_failed\<rparr>\<rparr>
                 | (publicUrl, None) \<Rightarrow> w2\<lparr>ui := s1\<lparr>pdfUrl := Some publicUrl\<rparr>\<rparr>))"

definition handleFieldClick :: "FormField \<Rightarrow> state \<Rightarrow> state" where
  "handleFieldClick field s =
     (if field_type field = Signature
      then (let s1 = s\<lparr>activeField := Some (label field)\<rparr>;
                s2 = (if isMobile s
                      then s1\<lparr>showSignaturePad := True, showQRCode := False\<rparr>
                      else s1\<lparr>showSignaturePad := False, showQRCode := False\<rparr>)
            in s2\<lparr>currentPage := pageNumber (position field)\<rparr>)
      else s)"

text \<open>A computed key \<open>[activeField!]\<close> with \<open>activeField\<close> null is the key \<open>null\<close>.\<close>

definition handleSignatureSave :: "string \<Rightarrow> state \<Rightarrow> state" where
  "handleSignatureSave signatureData s =
     (let key = (case activeField s of None \<Rightarrow> ''null'' | Some l \<Rightarrow> l)
      in s\<lparr>formValues := (formValues s)(key \<mapsto> signatureData),
           showSignaturePad := False, activeField := None, showQRCode := False\<rparr>)"

definition handleInputChange :: "FormField \<Rightarrow> string \<Rightarrow> state \<Rightarrow> state" where
  "handleInputChange field val s = s\<lparr>formValues := (formValues s)(label field \<mapsto> val)\<rparr>"

definition handleCancelSignature :: "state \<Rightarrow> state" where
  "handleCancelSignature s = s\<lparr>showSignaturePad := False, showQRCode := False, activeField := None\<rparr>"

definition save_failed :: string where
  "save_failed = ''Failed to save the document. Please try again.''"

text \<open>The \<open>catch\<close> and \<open>finally\<close> of \<open>handleSave\<close>.\<close>

definition save_caught :: "state \<Rightarrow> state" where
  "save_caught s = s\<lparr>error := Some save_failed, isSaving := False\<rparr>"

text \<open>
  \<open>handleSave\<close>. \<open>validateForm\<close> is called before the \<open>try\<close>: when it throws, the promise
  of \<open>handleSave\<close> is rejected and nothing has been set or requested.
\<close>

definition handleSave :: "Backend \<Rightarrow> world \<Rightarrow> world" where
  "handleSave B w =
     (let s = ui w
      in if template s = None \<or> falsy (templateId s) then w
         else (case validateForm s of
                 Inl e \<Rightarrow> w
               | Inr (False, s') \<Rightarrow> w\<lparr>ui := s'\<rparr>
               | Inr (True, s') \<Rightarrow>
                   (let s1 = s'\<lparr>isSaving := True, error := None\<rparr>;
                        row = \<lparr>ins_template_id = or_empty (templateId s),
                               ins_form_values = formValues s, ins_user_id = None\<rparr>;
                        (tbl, reply) = insert_signed_document B (signed_documents w) row;
                        w1 = w\<lparr>signed_documents := tbl,
                               requests := requests w @ [InsertRequest row]\<rparr>
                    in case reply of
                         (_, Some saveError) \<Rightarrow> w1\<lparr>ui := save_caught s1\<rparr>
                       | (None, None) \<Rightarrow> w1\<lparr>ui := save_caught s1\<rparr>
                       | (Some [], None) \<Rightarrow> w1\<lparr>ui := save_caught s1\<rparr>
                       | (Some (r # rs), None) \<Rightarrow>
                           (if row_id r = [] then w1\<lparr>ui := save_caught s1\<rparr>
                            else (let documentId = row_id r;
                                      w2 = w1\<lparr>requests := requests w1 @ [SelectDocumentRequest documentId]\<rparr>
                                  in case getSignedDocument B tbl documentId of
                                       Inl e \<Rightarrow> w2\<lparr>ui := save_caught s1\<rparr>
                                     | Inr newSignedDocument \<Rightarrow>
                                         (let s2 = s1\<lparr>signedDocument := newSignedDocument\<rparr>;
                                              s3 = (if isMobile s then s2\<lparr>mobileSignatureComplete := True\<rparr> else s2)
                                          in w2\<lparr>ui := s3\<lparr>isSaving := False\<rparr>\<rparr>))))))"

definition handleNextField :: "state \<Rightarrow> state" where
  "handleNextField s =
     (case template s of
        None \<Rightarrow> s
      | Some t \<Rightarrow>
          if int (currentFieldIndex s) < int (length (t_fields t)) - 1
          then (let s1 = s\<lparr>currentFieldIndex := currentFieldIndex s + 1\<rparr>;
                    nextPage = pageNumber (position (t_fields t ! (currentFieldIndex s + 1)))
                in if nextPage \<noteq> 0 then s1\<lparr>currentPage := nextPage\<rparr> else s1)
          else s)"

text \<open>The callback of the \<open>postgres_changes\<close> subscription on \<open>INSERT\<close>.\<close>

definition on_insert :: "Backend \<Rightarrow> InsertPayload \<Rightarrow> world \<Rightarrow> world" where
  "on_insert B payload w =
     (if Some (new_template_id payload) = templateId (ui w)
      then (let w1 = w\<lparr>requests := requests w @ [SelectDocumentRequest (new_id payload)]\<rparr>
            in case getSignedDocument B (signed_documents w) (new_id payload) of
                 Inl e \<Rightarrow> w1
               | Inr None \<Rightarrow> w1
               | Inr (Some updatedDocument) \<Rightarrow>
                   w1\<lparr>ui := (ui w)\<lparr>signedDocument := Some updatedDocument,
                                    formValues := formValues (ui w) ++ form_values updatedDocument,
                                    success := True\<rparr>\<rparr>)
      else w)"

subsection \<open>The button under the field list\<close>

text \<open>
  The form is rendered when the component is not in the mobile capture view, the template
  and its URL are loaded and \<open>success\<close> is false. Below the fields it shows either
  \<open>Next Field\<close> or \<open>Submit Document\<close>, each with its \<open>disabled\<close> attribute; that of
  \<open>Next Field\<close> is \<open>!formValues[template.fields[currentFieldIndex].label]\<close>.
\<close>

datatype Button = NextFieldButton bool | SubmitButton bool

definition form_rendered :: "state \<Rightarrow> bool" where
  "form_rendered s \<longleftrightarrow>
     \<not> (isMobile s \<and> isSigningMode s) \<and> template s \<noteq> None \<and> \<not> falsy (pdfUrl s) \<and> \<not> success s"

definition action_button :: "state \<Rightarrow> Button option" where
  "action_button s =
     (if \<not> form_rendered s then None
      else case template s of
             None \<Rightarrow> None
           | Some t \<Rightarrow>
               if int (currentFieldIndex s) < int (length (t_fields t)) - 1
               then Some (NextFieldButton
                            (\<not> truthy (js_get (formValues s)
                                           (label (t_fields t ! currentFieldIndex s)))))
               else Some (SubmitButton (isSaving s \<or> success s)))"

text \<open>A click on \<open>Next Field\<close>: a disabled or absent button fires nothing.\<close>

definition clickNextField :: "state \<Rightarrow> state" where
  "clickNextField s =
     (case action_button s of
        Some (NextFieldButton False) \<Rightarrow> handleNextField s
      | _ \<Rightarrow> s)"

subsection \<open>Runs of the component\<close>

text \<open>
  Every way the state changes: the handlers above, the three inline \<open>onClick\<close> setters of
  the signature options and the QR dialog, and the delivery of an \<open>INSERT\<close> notification.
  A handler is run whenever it is invoked, whether or not its control is enabled.
\<close>

datatype Event =
    Resize int
  | LoadTemplate
  | FieldClick FormField
  | SignatureSave string
  | InputChange FormField string
  | CancelSignature
  | Save
  | NextField
  | DrawSignature
  | SignOnMobile
  | CancelQRCode
  | RealtimeInsert InsertPayload

fun step :: "Backend \<Rightarrow> world \<Rightarrow> Event \<Rightarrow> world" where
  "step B w (Resize innerWidth) = w\<lparr>ui := handleResize innerWidth (ui w)\<rparr>"
| "step B w LoadTemplate = loadTemplate B w"
| "step B w (FieldClick field) = w\<lparr>ui := handleFieldClick field (ui w)\<rparr>"
| "step B w (SignatureSave signatureData) = w\<lparr>ui := handleSignatureSave signatureData (ui w)\<rparr>"
| "step B w (InputChange field val) = w\<lparr>ui := handleInputChange field val (ui w)\<rparr>"
| "step B w CancelSignature = w\<lparr>ui := handleCancelSignature (ui w)\<rparr>"
| "step B w Save = handleSave B w"
| "step B w NextField = w\<lparr>ui := handleNextField (ui w)\<rparr>"
| "step B w DrawSignature = w\<lparr>ui := (ui w)\<lparr>showSignaturePad := True\<rparr>\<rparr>"
| "step B w SignOnMobile = w\<lparr>ui := (ui w)\<lparr>showQRCode := True\<rparr>\<rparr>"
| "step B w CancelQRCode = w\<lparr>ui := (ui w)\<lparr>showQRCode := False, showSignaturePad := False\<rparr>\<rparr>"
| "step B w (RealtimeInsert payload) = on_insert B payload w"

definition run :: "Backend \<Rightarrow> world \<Rightarrow> Event list \<Rightarrow> world" where
  "run B w es = foldl (step B) w es"

section \<open>The spec's placement rule\<close>

text \<open>
  The words of the spec, to compare with the loop. The payload of a signature value is
  what stands between its first comma and the next one; it is decoded and embedded as an
  image. A draw is placed at the field's \<open>x\<close> and at \<open>pdf_y = H - y - elementHeight\<close>,
  where \<open>elementHeight\<close> is 0 for a text draw and the height of the image as drawn for an
  image draw, which is half the native height.
\<close>

definition payload_of :: "string \<Rightarrow> string option" where
  "payload_of v =
     (if CHR '','' \<in> set v
      then Some (takeWhile (\<lambda>c. c \<noteq> CHR '','') (tl (dropWhile (\<lambda>c. c \<noteq> CHR '','') v)))
      else None)"

definition image_of :: "PdfLib \<Rightarrow> string \<Rightarrow> PngImage option" where
  "image_of L v =
     (case atob L (case payload_of v of None \<Rightarrow> ''undefined'' | Some b \<Rightarrow> b) of
        None \<Rightarrow> None
      | Some bytes \<Rightarrow> embedPng L bytes)"

definition pdf_y :: "real \<Rightarrow> FormField \<Rightarrow> real \<Rightarrow> real" where
  "pdf_y H field elementHeight = H - pos_y (position field) - elementHeight"

text \<open>
  What one field puts on its page, of height \<open>H\<close>: the image of a signature field with a
  value, at half size (nothing when the value does not decode), and for every other field
  the text of its value.
\<close>

definition field_draw :: "PdfLib \<Rightarrow> FormValues \<Rightarrow> real \<Rightarrow> FormField \<Rightarrow> DrawOp list" where
  "field_draw L vals H field =
     (case js_get vals (label field) of
        Inherited \<Rightarrow> []
      | Undefined \<Rightarrow>
          [DrawText [] (pos_x (position field)) (pdf_y H field 0) 12 Helvetica (rgb 0 0 0)]
      | Str v \<Rightarrow>
          if field_type field = Signature \<and> v \<noteq> []
          then (case image_of L v of
                  None \<Rightarrow> []
                | Some img \<Rightarrow>
                    [DrawImage img (pos_x (position field))
                       (pdf_y H field (png_height img / 2))
                       (png_width img / 2) (png_height img / 2)])
          else [DrawText v (pos_x (position field)) (pdf_y H field 0)
                  12 Helvetica (rgb 0 0 0)])"

definition on_page :: "nat \<Rightarrow> FormField \<Rightarrow> bool" where
  "on_page i field \<longleftrightarrow> pageNumber (position field) = int i + 1"

text \<open>
  The field makes the loop throw on a document of \<open>n\<close> pages: its page exists and its
  value goes to \<open>drawText\<close>, as an inherited member or as a string the font cannot encode.
\<close>

definition text_draw_throws :: "PdfLib \<Rightarrow> FormValues \<Rightarrow> nat \<Rightarrow> FormField \<Rightarrow> bool" where
  "text_draw_throws L vals n field \<longleftrightarrow>
     1 \<le> pageNumber (position field) \<and> pageNumber (position field) \<le> int n
     \<and> (case js_get vals (label field) of
          Inherited \<Rightarrow> field_type field \<noteq> Signature
        | Undefined \<Rightarrow> \<not> canDrawText L []
        | Str v \<Rightarrow> \<not> (field_type field = Signature \<and> v \<noteq> []) \<and> \<not> canDrawText L v)"

fun op_x :: "DrawOp \<Rightarrow> real" where
  "op_x (DrawText txt x y sz font color) = x"
| "op_x (DrawImage img x y w h) = x"

fun op_y :: "DrawOp \<Rightarrow> real" where
  "op_y (DrawText txt x y sz font color) = y"
| "op_y (DrawImage img x y w h) = y"

fun elementHeight :: "DrawOp \<Rightarrow> real" where
  "elementHeight (DrawText txt x y sz font color) = 0"
| "elementHeight (DrawImage img x y w h) = h"

fun half_scaled :: "DrawOp \<Rightarrow> bool" where
  "half_scaled (DrawText txt x y sz font color) = True"
| "half_scaled (DrawImage img x y w h) \<longleftrightarrow> w = png_width img / 2 \<and> h = png_height img / 2"

fun is_text_draw :: "DrawOp \<Rightarrow> bool" where
  "is_text_draw (DrawText txt x y sz font color) = True"
| "is_text_draw (DrawImage img x y w h) = False"

text \<open>The same signed document with another field list in its template.\<close>

definition with_fields :: "SignedDocument \<Rightarrow> FormField list \<Rightarrow> SignedDocument" where
  "with_fields doc fs = doc\<lparr>doc_template := (doc_template doc)\<lparr>t_fields := fs\<rparr>\<rparr>"

text \<open>
  What the handler obtains for a notification: the record \<open>getSignedDocument\<close> returns
  (none when it throws or returns null), and the \<open>form_values\<close> it merges.
\<close>

definition fetched_document :: "Backend \<Rightarrow> SignedRow list \<Rightarrow> InsertPayload \<Rightarrow> SignedDocument option" where
  "fetched_document B tbl payload =
     (case getSignedDocument B tbl (new_id payload) of
        Inl e \<Rightarrow> None
      | Inr d \<Rightarrow> d)"

definition fetched_values :: "Backend \<Rightarrow> SignedRow list \<Rightarrow> InsertPayload \<Rightarrow> FormValues" where
  "fetched_values B tbl payload =
     (case fetched_document B tbl payload of
        None \<Rightarrow> Map.empty
      | Some d \<Rightarrow> form_values d)"

fun is_RealtimeInsert :: "Event \<Rightarrow> bool" where
  "is_RealtimeInsert (RealtimeInsert payload) = True"
| "is_RealtimeInsert e = False"

section \<open>Sample data\<close>

text \<open>
  The template of the spec's end-to-end scenarios, a field on a page the source does not
  have, and a required field whose label names a member of \<open>Object.prototype\<close>.
\<close>

definition name_field :: FormField where
  "name_field =
     \<lparr>field_type = Text, position = \<lparr>pos_x = 50, pos_y = 100, pageNumber = 1\<rparr>,
      label = ''Name'', required = True, field_id = ''f1''\<rparr>"

definition sig_field :: FormField where
  "sig_field =
     \<lparr>field_type = Signature, position = \<lparr>pos_x = 50, pos_y = 300, pageNumber = 1\<rparr>,
      label = ''Sig'', required = True, field_id = ''f2''\<rparr>"

definition stray_field :: FormField where
  "stray_field =
     \<lparr>field_type = Text, position = \<lparr>pos_x = 10, pos_y = 20, pageNumber = 3\<rparr>,
      label = ''Note'', required = False, field_id = ''f3''\<rparr>"

definition constructor_field :: FormField where
  "constructor_field =
     \<lparr>field_type = Text, position = \<lparr>pos_x = 50, pos_y = 100, pageNumber = 1\<rparr>,
      label = ''constructor'', required = True, field_id = ''f4''\<rparr>"

definition sample_template :: Template where
  "sample_template =
     \<lparr>t_id = ''t1'', t_name = ''Contract'', t_fields = [name_field, sig_field],
      t_file_path = ''contract.pdf''\<rparr>"

definition constructor_template :: Template where
  "constructor_template =
     \<lparr>t_id = ''t1'', t_name = ''Contract'', t_fields = [constructor_field, sig_field],
      t_file_path = ''contract.pdf''\<rparr>"

text \<open>
  A PNG image of 200 by 80 pixels (signature, \<open>IHDR\<close>, \<open>IDAT\<close>, \<open>IEND\<close>), its base64 text
  and the data URL a signature pad gives for it.
\<close>

definition sample_png :: string where
  "sample_png =
     [CHR 0x89, CHR 0x50, CHR 0x4E, CHR 0x47, CHR 0x0D, CHR 0x0A, CHR 0x1A, CHR 0x0A,
      CHR 0x00, CHR 0x00, CHR 0x00, CHR 0x0D, CHR 0x49, CHR 0x48, CHR 0x44, CHR 0x52,
      CHR 0x00, CHR 0x00, CHR 0x00, CHR 0xC8, CHR 0x00, CHR 0x00, CHR 0x00, CHR 0x50,
      CHR 0x08, CHR 0x00, CHR 0x00, CHR 0x00, CHR 0x00, CHR 0x79, CHR 0x06, CHR 0x65,
      CHR 0x6C, CHR 0x00, CHR 0x00, CHR 0x00, CHR 0x58, CHR 0x49, CHR 0x44, CHR 0x41,
      CHR 0x54, CHR 0x78, CHR 0xDA, CHR 0xED, CHR 0xCF, CHR 0x01, CHR 0x0D, CHR 0x00,
      CHR 0x00, CHR 0x0C, CHR 0x02, CHR 0x20, CHR 0xFB, CHR 0x97, CHR 0xD6, CHR 0x1A,
      CHR 0xDF, CHR 0x07, CHR 0x0D, CHR 0x48, CHR 0x9F, CHR 0x88, CHR 0x88, CHR 0x88,
      CHR 0x88, CHR 0x88, CHR 0x88, CHR 0x88, CHR 0x88, CHR 0x88, CHR 0x88, CHR 0x88,
      CHR 0x88, CHR 0x88, CHR 0x88, CHR 0x88, CHR 0x88, CHR 0x88, CHR 0x88, CHR 0x88,
      CHR 0x88, CHR 0x88, CHR 0x88, CHR 0x88, CHR 0x88, CHR 0x88, CHR 0x88, CHR 0x88,
      CHR 0x88, CHR 0x88, CHR 0x88, CHR 0x88, CHR 0x88, CHR 0x88, CHR 0x88, CHR 0x88,
      CHR 0x88, CHR 0x88, CHR 0x88, CHR 0x88, CHR 0x88, CHR 0x88, CHR 0x88, CHR 0x88,
      CHR 0x88, CHR 0x88, CHR 0x88, CHR 0x88, CHR 0x88, CHR 0x88, CHR 0x88, CHR 0x88,
      CHR 0x88, CHR 0x88, CHR 0x88, CHR 0x88, CHR 0x88, CHR 0x88, CHR 0x88, CHR 0x88,
      CHR 0x88, CHR 0x88, CHR 0xC8, CHR 0x25, CHR 0x03, CHR 0xF1, CHR 0xD5, CHR 0x45,
      CHR 0x23, CHR 0xAE, CHR 0x33, CHR 0xAC, CHR 0x37, CHR 0x00, CHR 0x00, CHR 0x00,
      CHR 0x00, CHR 0x49, CHR 0x45, CHR 0x4E, CHR 0x44, CHR 0xAE, CHR 0x42, CHR 0x60,
      CHR 0x82]"

definition sample_base64 :: string where
  "sample_base64 =
     ''iVBORw0KGgoAAAANSUhEUgAAAMgAAABQCAAAAAB5BmVsAAAAWElEQVR42u3PAQ0AAAwCIPuX'' @
     ''1hrfBw1In4iIiIiIiIiIiIiIiIiIiIiIiIiIiIiIiIiIiIiIiIiIiIiIiIiIiIiIiIiIiIiI'' @
     ''iIiIiIiIiIiIiIiIiIjIJQPx1UUjrjOsNwAAAABJRU5ErkJggg==''"

definition sample_signature :: string where
  "sample_signature = ''data:image/png;base64,'' @ sample_base64"

text \<open>The stored source: a PDF document of one empty page, 612 by 792.\<close>

definition sample_pdf :: string where
  "sample_pdf =
     concat (map (\<lambda>line. line @ [CHR 0x0A])
     [''%PDF-1.4'',
      ''1 0 obj'',
      ''<< /Type /Catalog /Pages 2 0 R >>'',
      ''endobj'',
      ''2 0 obj'',
      ''<< /Type /Pages /Kids [3 0 R] /Count 1 >>'',
      ''endobj'',
      ''3 0 obj'',
      ''<< /Type /Page /Parent 2 0 R /MediaBox [0 0 612 792] >>'',
      ''endobj'',
      ''xref'',
      ''0 4'',
      ''0000000000 65535 f '',
      ''0000000009 00000 n '',
      ''0000000058 00000 n '',
      ''0000000115 00000 n '',
      ''trailer'',
      ''<< /Size 4 /Root 1 0 R >>'',
      ''startxref'',
      ''186'',
      ''%%EOF''])"

text \<open>
  A library that parses the sample source only, decodes and embeds the sample image only,
  and draws the printable ASCII characters.
\<close>

definition printable :: "char \<Rightarrow> bool" where
  "printable c \<longleftrightarrow> 32 \<le> (of_char c :: nat) \<and> (of_char c :: nat) \<le> 126"

definition sample_lib :: PdfLib where
  "sample_lib =
     \<lparr>load = (\<lambda>bytes. if bytes = sample_pdf
                       then Some [\<lparr>page_height = 792, page_content = []\<rparr>]
                       else None),
      atob = (\<lambda>s. if s = sample_base64 then Some sample_png else None),
      embedPng = (\<lambda>bytes. if bytes = sample_png then Some \<lparr>png_width = 200, png_height = 80\<rparr>
                           else None),
      canDrawText = list_all printable\<rparr>"

definition sample_storage :: Storage where
  "sample_storage =
     \<lparr>download = (\<lambda>path. if path = ''contract.pdf'' then (Some sample_pdf, None)
                          else (None, Some ''Object not found''))\<rparr>"

definition sample_page :: Page where
  "sample_page = \<lparr>page_height = 792, page_content = []\<rparr>"

definition sample_flatten_state :: FlattenState where
  "sample_flatten_state = \<lparr>pages = [sample_page], console = []\<rparr>"

definition sample_values :: FormValues where
  "sample_values = [''Name'' \<mapsto> ''Jane Doe'', ''Sig'' \<mapsto> sample_signature]"

definition bad_sig_values :: FormValues where
  "bad_sig_values = [''Name'' \<mapsto> ''Jane Doe'', ''Sig'' \<mapsto> ''not an image'']"

definition blank_name_values :: FormValues where
  "blank_name_values = [''Name'' \<mapsto> ''  '', ''Sig'' \<mapsto> sample_signature]"


definition sample_document :: "FormValues \<Rightarrow> FormField list \<Rightarrow> SignedDocument" where
  "sample_document vals fs =
     \<lparr>doc_id = ''d1'', template_id = ''t1'', form_values = vals,
      created_at = ''2024-01-01T00:00:00Z'',
      doc_template = sample_template\<lparr>t_fields := fs\<rparr>\<rparr>"

text \<open>A store that accepts every insert under the id \<open>d1\<close> and finds the rows it holds.\<close>

definition sample_backend :: Backend where
  "sample_backend =
     \<lparr>insert_signed_document = (\<lambda>tbl row.
        (let r = \<lparr>row_id = ''d1'', row_template_id = ins_template_id row,
                   row_form_values = ins_form_values row,
                   row_created_at = ''2024-01-01T00:00:00Z''\<rparr>
         in (tbl @ [r], (Some [r], None)))),
      select_signed_document = (\<lambda>tbl documentId.
        (case find (\<lambda>r. row_id r = documentId) tbl of
           None \<Rightarrow> (None, Some ''no rows'')
         | Some r \<Rightarrow>
             (Some \<lparr>doc_id = row_id r, template_id = row_template_id r,
                    form_values = row_form_values r, created_at = row_created_at r,
                    doc_template = sample_template\<rparr>, None))),
      select_template = (\<lambda>tid. if tid = Some ''t1'' then (Some sample_template, None)
                                else (None, Some ''no rows'')),
      getPublicUrl = (\<lambda>path. (''https://store/'' @ path, None))\<rparr>"

definition loaded_state :: "FormValues \<Rightarrow> state" where
  "loaded_state vals =
     (initial_state (Some ''t1'') False 1280)
       \<lparr>template := Some sample_template, pdfUrl := Some ''https://store/contract.pdf'',
        formValues := vals\<rparr>"

text \<open>The session on the template with the \<open>constructor\<close> field, nothing entered.\<close>

definition constructor_state :: state where
  "constructor_state = (loaded_state Map.empty)\<lparr>template := Some constructor_template\<rparr>"

definition sample_world :: "FormValues \<Rightarrow> world" where
  "sample_world vals = \<lparr>ui = loaded_state vals, signed_documents = [], requests = []\<rparr>"

text \<open>Two completions persisted for the same template, and their notifications.\<close>

definition first_row :: SignedRow where
  "first_row =
     \<lparr>row_id = ''d1'', row_template_id = ''t1'',
      row_form_values = sample_values,
      row_created_at = ''2024-01-01T00:00:00Z''\<rparr>"

definition second_row :: SignedRow where
  "second_row =
     \<lparr>row_id = ''d2'', row_template_id = ''t1'',
      row_form_values = [''Name'' \<mapsto> ''John Roe''],
      row_created_at = ''2024-01-01T00:00:05Z''\<rparr>"

definition first_payload :: InsertPayload where
  "first_payload = \<lparr>new_id = ''d1'', new_template_id = ''t1''\<rparr>"

definition second_payload :: InsertPayload where
  "second_payload = \<lparr>new_id = ''d2'', new_template_id = ''t1''\<rparr>"

definition other_payload :: InsertPayload where
  "other_payload = \<lparr>new_id = ''d9'', new_template_id = ''t2''\<rparr>"

definition raced_world :: world where
  "raced_world =
     \<lparr>ui = loaded_state Map.empty, signed_documents = [first_row, second_row], requests = []\<rparr>"

section \<open>Validation: properties\<close>

lemma trim_Nil: "trim [] = []"
  by (simp add: trim_def)

lemma is_missing_Inr:
  "is_missing vals f = Inr b \<Longrightarrow> b \<longleftrightarrow> required f \<and> \<not> has_value vals f"
  by (cases "vals (label f)")
     (auto simp: is_missing_def has_value_def js_get_def truthy_def trim_Nil Let_def
        split: if_splits)

lemma is_missing_own:
  "js_get vals (label f) \<noteq> Inherited \<or> \<not> required f \<Longrightarrow>
     is_missing vals f = Inr (required f \<and> \<not> has_value vals f)"
  by (cases "vals (label f)")
     (auto simp: is_missing_def has_value_def js_get_def truthy_def trim_Nil Let_def
        split: if_splits)

lemma is_missing_Inl:
  "is_missing vals f = Inl e \<longleftrightarrow>
     e = TypeError \<and> required f \<and> js_get vals (label f) = Inherited"
  by (cases "vals (label f)")
     (auto simp: is_missing_def js_get_def truthy_def Let_def split: if_splits)

lemma filter_throwing_Inr:
  "filter_throwing p xs = Inr ys \<Longrightarrow>
     ys = filter (\<lambda>x. p x = Inr True) xs \<and> (\<forall>x \<in> set xs. \<exists>b. p x = Inr b)"
proof (induction xs arbitrary: ys)
  case Nil
  then show ?case by simp
next
  case (Cons x xs)
  then show ?case
    by (auto split: sum.splits if_splits)
qed

lemma filter_throwing_total:
  "\<forall>x \<in> set xs. \<exists>b. p x = Inr b \<Longrightarrow> \<exists>ys. filter_throwing p xs = Inr ys"
  by (induction xs) (auto split: sum.splits)

lemma missingFields_Inr:
  assumes "missingFields t vals = Inr missing"
  shows "missing = filter (\<lambda>f. required f \<and> \<not> has_value vals f) (t_fields t)"
proof -
  from assms have m: "missing = filter (\<lambda>f. is_missing vals f = Inr True) (t_fields t)"
    and a: "\<forall>f \<in> set (t_fields t). \<exists>b. is_missing vals f = Inr b"
    using filter_throwing_Inr [of "is_missing vals" "t_fields t" missing]
    by (simp_all add: missingFields_def)
  have "filter (\<lambda>f. is_missing vals f = Inr True) (t_fields t) =
        filter (\<lambda>f. required f \<and> \<not> has_value vals f) (t_fields t)"
  proof (rule filter_cong [OF refl])
    fix f assume "f \<in> set (t_fields t)"
    with a obtain b where b: "is_missing vals f = Inr b" by blast
    with is_missing_Inr [OF b] show "(is_missing vals f = Inr True) = (required f \<and> \<not> has_value vals f)"
      by auto
  qed
  with m show ?thesis by simp
qed

lemma missingFields_total:
  assumes "\<forall>f \<in> set (t_fields t). required f \<longrightarrow> js_get vals (label f) \<noteq> Inherited"
  shows "\<exists>missing. missingFields t vals = Inr missing"
  unfolding missingFields_def
proof (rule filter_throwing_total, rule ballI)
  fix f assume "f \<in> set (t_fields t)"
  with assms have "js_get vals (label f) \<noteq> Inherited \<or> \<not> required f" by blast
  from is_missing_own [OF this] show "\<exists>b. is_missing vals f = Inr b" by blast
qed

lemma validateForm_Inr:
  assumes "template s = Some t" and "validateForm s = Inr (ok, s')"
  shows "ok \<longleftrightarrow> (\<forall>f \<in> set (t_fields t). required f \<longrightarrow> has_value (formValues s) f)"
    and "ok \<Longrightarrow> s' = s"
    and "\<not> ok \<Longrightarrow> s' = s\<lparr>error := Some (validation_message
            (filter (\<lambda>f. required f \<and> \<not> has_value (formValues s) f) (t_fields t)))\<rparr>"
proof -
  from assms obtain missing where m: "missingFields t (formValues s) = Inr missing"
    by (auto simp: validateForm_def split: sum.splits)
  note f = missingFields_Inr [OF m]
  from assms m have r: "ok = (missing = [])"
    "s' = (if missing = [] then s else s\<lparr>error := Some (validation_message missing)\<rparr>)"
    by (auto simp: validateForm_def split: if_splits)
  show "ok \<longleftrightarrow> (\<forall>f \<in> set (t_fields t). required f \<longrightarrow> has_value (formValues s) f)"
    using r(1) f by (auto simp: filter_empty_conv)
  show "ok \<Longrightarrow> s' = s" using r by simp
  show "\<not> ok \<Longrightarrow> s' = s\<lparr>error := Some (validation_message
            (filter (\<lambda>f. required f \<and> \<not> has_value (formValues s) f) (t_fields t)))\<rparr>"
    using r f by simp
qed

lemma validateForm_total:
  assumes "template s = Some t"
    and "\<forall>f \<in> set (t_fields t). required f \<longrightarrow> js_get (formValues s) (label f) \<noteq> Inherited"
  shows "\<exists>ok s'. validateForm s = Inr (ok, s')"
  using missingFields_total [OF assms(2)] assms(1)
  by (auto simp: validateForm_def)

lemma validateForm_rejects:
  assumes "template s = Some t"
    and "\<exists>f \<in> set (t_fields t). required f \<and> \<not> has_value (formValues s) f"
  shows "(\<exists>e. validateForm s = Inl e) \<or> (\<exists>s'. validateForm s = Inr (False, s'))"
proof (cases "validateForm s")
  case (Inl e)
  then show ?thesis by simp
next
  case (Inr r)
  obtain ok s' where r: "r = (ok, s')" by (cases r)
  from validateForm_Inr(1) [OF assms(1) Inr [unfolded r]] assms(2) have "\<not> ok" by blast
  with Inr r show ?thesis by simp
qed

lemma validateForm_state:
  "validateForm s = Inr (ok, s') \<Longrightarrow> s' = s \<or> (\<exists>m. s' = s\<lparr>error := Some m\<rparr>)"
  by (auto simp: validateForm_def split: option.splits sum.splits if_splits)

text \<open>
  Where no required field reads an inherited member, \<open>validateForm\<close> returns: it answers
  true exactly when every required field has a value that is non-empty after trimming, and
  otherwise reports the labels of the required fields without such a value, and no others.
\<close>

lemma validateForm_own_values:
  assumes "template s = Some t"
    and "\<forall>f \<in> set (t_fields t). required f \<longrightarrow> js_get (formValues s) (label f) \<noteq> Inherited"
  shows "\<exists>ok s'. validateForm s = Inr (ok, s')
       \<and> (ok \<longleftrightarrow> (\<forall>f \<in> set (t_fields t). required f \<longrightarrow> has_value (formValues s) f))
       \<and> (\<not> ok \<longrightarrow>
            (\<exists>reported.
               error s' = Some (''Please complete all required fields: '' @ join '', '' reported)
             \<and> set reported =
                 {label f | f. f \<in> set (t_fields t) \<and> required f
                     \<and> \<not> has_value (formValues s) f}))"
proof -
  from validateForm_total [OF assms] obtain ok s' where v: "validateForm s = Inr (ok, s')"
    by blast
  note r = validateForm_Inr [OF assms(1) v]
  let ?m = "filter (\<lambda>f. required f \<and> \<not> has_value (formValues s) f) (t_fields t)"
  have "\<not> ok \<longrightarrow> error s' = Some (''Please complete all required fields: '' @ join '', '' (map label ?m))
      \<and> set (map label ?m) = {label f | f. f \<in> set (t_fields t) \<and> required f
                     \<and> \<not> has_value (formValues s) f}"
    using r(3) by (auto simp: validation_message_def)
  with v r(1) show ?thesis by blast
qed

text \<open>
  C1. The claim asks that, for a required field without a value, \<open>validateForm\<close> answer
  false and report the label of the field. On the template whose first field is required
  and labelled \<open>constructor\<close>, with nothing entered, \<open>formValues[field.label]\<close> is the
  inherited \<open>Object\<close> function, which is truthy and has no \<open>trim\<close>: \<open>validateForm\<close> throws
  a \<open>TypeError\<close>, so it neither answers false nor reports the label.
\<close>

theorem validateForm_throws_on_inherited_label:
  "template constructor_state = Some constructor_template
   \<and> constructor_field \<in> set (t_fields constructor_template)
   \<and> required constructor_field
   \<and> formValues constructor_state (label constructor_field) = None
   \<and> validateForm constructor_state = Inl TypeError"
  by (simp add: validateForm_def missingFields_def is_missing_def js_get_def truthy_def
      object_prototype_members_def constructor_state_def constructor_template_def
      constructor_field_def loaded_state_def initial_state_def)

section \<open>Flattening: properties\<close>

text \<open>The second element of \<open>value.split(',')\<close> is the payload of the spec.\<close>

lemma split_not_Nil: "split sep v \<noteq> []"
  by (induction v) (auto split: list.splits)

lemma hd_split: "hd (split sep v) = takeWhile (\<lambda>c. c \<noteq> sep) v"
  using split_not_Nil [of sep]
  by (induction v) (auto split: list.splits)

lemma tl_split:
  "tl (split sep v) =
     (if sep \<in> set v then split sep (tl (dropWhile (\<lambda>c. c \<noteq> sep) v)) else [])"
  using split_not_Nil [of sep]
  by (induction v) (auto split: list.splits)

lemma split_second: "at_index (split CHR '','' v) 1 = payload_of v"
proof (cases "split CHR '','' v")
  case Nil
  with split_not_Nil show ?thesis by blast
next
  case (Cons p ps)
  then have ps: "ps = tl (split CHR '','' v)" by simp
  show ?thesis
  proof (cases "CHR '','' \<in> set v")
    case False
    with ps tl_split [of "CHR '',''" v] Cons show ?thesis
      by (simp add: at_index_def payload_of_def)
  next
    case True
    let ?r = "tl (dropWhile (\<lambda>c. c \<noteq> CHR '','') v)"
    from True ps tl_split [of "CHR '',''" v] have "ps = split CHR '','' ?r" by simp
    moreover obtain q qs where q: "split CHR '','' ?r = q # qs"
      using split_not_Nil [of "CHR '',''" ?r] by (cases "split CHR '','' ?r") auto
    moreover from q hd_split [of "CHR '',''" ?r] have "q = takeWhile (\<lambda>c. c \<noteq> CHR '','') ?r"
      by simp
    ultimately show ?thesis
      using True Cons by (simp add: at_index_def payload_of_def)
  qed
qed

lemma decode_signature_image_of: "decode_signature L v = image_of L v"
  using split_second [of v]
  by (simp add: decode_signature_def image_of_def to_DOMString_def)

lemma page_at_Some_iff:
  "page_at pgs n = Some p \<longleftrightarrow> 1 \<le> n \<and> n \<le> int (length pgs) \<and> p = pgs ! nat (n - 1)"
  by (auto simp: page_at_def)

lemma page_at_None_iff:
  "page_at pgs n = None \<longleftrightarrow> n < 1 \<or> int (length pgs) < n"
  by (auto simp: page_at_def)

lemma overlay_field_skip:
  "page_at (pages st) (pageNumber (position f)) = None \<Longrightarrow> overlay_field L vals st f = Inr st"
  by (simp add: overlay_field_def)

text \<open>One iteration on a field whose page exists, by what the field puts on the page.\<close>

lemma overlay_field_resolved:
  assumes "page_at (pages st) (pageNumber (position f)) = Some p"
  shows "overlay_field L vals st f =
     (if text_draw_throws L vals (length (pages st)) f
      then Inl (if js_get vals (label f) = Inherited then TypeError else EncodingError)
      else if field_draw L vals (page_height p) f = []
      then Inr (st\<lparr>console := console st @ [''Error embedding signature:'']\<rparr>)
      else Inr (put_page st (pageNumber (position f))
             (p\<lparr>page_content := page_content p @ field_draw L vals (page_height p) f\<rparr>)))"
proof -
  from assms have n: "1 \<le> pageNumber (position f)"
    "pageNumber (position f) \<le> int (length (pages st))"
    by (simp_all add: page_at_Some_iff)
  show ?thesis
  proof (cases "js_get vals (label f)")
    case Undefined
    with assms n show ?thesis
      by (simp add: overlay_field_def text_draw_throws_def field_draw_def value_or_empty_def
          truthy_def drawText_def pdf_y_def Let_def)
  next
    case Inherited
    with assms n show ?thesis
      by (simp add: overlay_field_def text_draw_throws_def field_draw_def value_or_empty_def
          truthy_def drawText_def embed_signature_def Let_def)
  next
    case (Str v)
    show ?thesis
    proof (cases "field_type f = Signature \<and> v \<noteq> []")
      case True
      with Str assms n show ?thesis
        by (cases "image_of L v")
           (simp_all add: overlay_field_def text_draw_throws_def field_draw_def
              value_or_empty_def truthy_def embed_signature_def decode_signature_image_of
              drawImage_def scale_def pdf_y_def Let_def)
    next
      case False
      with Str assms n show ?thesis
        by (cases "v = []")
           (auto simp: overlay_field_def text_draw_throws_def field_draw_def
              value_or_empty_def truthy_def drawText_def pdf_y_def Let_def)
    qed
  qed
qed


lemma overlay_field_Inr:
  assumes "overlay_field L vals st f = Inr st'"
  shows "length (pages st') = length (pages st)"
    and "i < length (pages st) \<Longrightarrow>
           pages st' ! i =
             (pages st ! i)\<lparr>page_content := page_content (pages st ! i) @
                (if on_page i f then field_draw L vals (page_height (pages st ! i)) f else [])\<rparr>"
proof -
  show "length (pages st') = length (pages st)"
  proof (cases "page_at (pages st) (pageNumber (position f))")
    case None
    with assms show ?thesis by (simp add: overlay_field_skip)
  next
    case (Some p)
    from assms show ?thesis
      unfolding overlay_field_resolved [OF Some]
      by (auto simp: put_page_def split: if_splits)
  qed
  assume i: "i < length (pages st)"
  show "pages st' ! i =
             (pages st ! i)\<lparr>page_content := page_content (pages st ! i) @
                (if on_page i f then field_draw L vals (page_height (pages st ! i)) f else [])\<rparr>"
  proof (cases "page_at (pages st) (pageNumber (position f))")
    case None
    then have "\<not> on_page i f"
      using i by (auto simp: page_at_None_iff on_page_def)
    with None assms show ?thesis by (simp add: overlay_field_skip)
  next
    case (Some p)
    then have n: "1 \<le> pageNumber (position f)" and p: "p = pages st ! nat (pageNumber (position f) - 1)"
      by (simp_all add: page_at_Some_iff)
    have o: "on_page i f \<longleftrightarrow> nat (pageNumber (position f) - 1) = i"
      using n by (auto simp: on_page_def)
    from assms show ?thesis
      unfolding overlay_field_resolved [OF Some]
      using i o p by (auto simp: put_page_def split: if_splits)
  qed
qed

lemma overlay_field_total:
  "\<not> text_draw_throws L vals (length (pages st)) f \<Longrightarrow> \<exists>st'. overlay_field L vals st f = Inr st'"
  by (cases "page_at (pages st) (pageNumber (position f))")
     (simp_all add: overlay_field_skip overlay_field_resolved)

text \<open>A run that returns has put on every page what its fields put there, in field order.\<close>

lemma flatten_fields_Inr:
  assumes "flatten_fields L vals fs st = Inr out"
  shows "length (pages out) = length (pages st)
       \<and> (\<forall>i < length (pages st).
            pages out ! i =
              (pages st ! i)\<lparr>page_content := page_content (pages st ! i) @
                 concat (map (field_draw L vals (page_height (pages st ! i)))
                           (filter (on_page i) fs))\<rparr>)"
  using assms
proof (induction fs arbitrary: st)
  case Nil
  then show ?case by simp
next
  case (Cons f fs)
  then obtain st' where s: "overlay_field L vals st f = Inr st'"
    and r: "flatten_fields L vals fs st' = Inr out"
    by (auto split: sum.splits)
  note l = overlay_field_Inr(1) [OF s]
  note ih = Cons.IH [OF r]
  show ?case
  proof (intro conjI allI impI)
    show "length (pages out) = length (pages st)" using ih l by simp
  next
    fix i assume i: "i < length (pages st)"
    note p = overlay_field_Inr(2) [OF s i]
    from ih i l have "pages out ! i =
              (pages st' ! i)\<lparr>page_content := page_content (pages st' ! i) @
                 concat (map (field_draw L vals (page_height (pages st' ! i)))
                           (filter (on_page i) fs))\<rparr>"
      by simp
    then show "pages out ! i =
              (pages st ! i)\<lparr>page_content := page_content (pages st ! i) @
                 concat (map (field_draw L vals (page_height (pages st ! i)))
                           (filter (on_page i) (f # fs)))\<rparr>"
      by (simp add: p)
  qed
qed

lemma flatten_fields_total:
  "\<forall>f \<in> set fs. \<not> text_draw_throws L vals (length (pages st)) f \<Longrightarrow>
     \<exists>out. flatten_fields L vals fs st = Inr out"
proof (induction fs arbitrary: st)
  case Nil
  show ?case by simp
next
  case (Cons f fs)
  then obtain st' where s: "overlay_field L vals st f = Inr st'"
    using overlay_field_total [of L vals st f] by auto
  from Cons.prems overlay_field_Inr(1) [OF s]
  have "\<forall>g \<in> set fs. \<not> text_draw_throws L vals (length (pages st')) g" by simp
  from Cons.IH [OF this] s show ?case by simp
qed

lemma flatten_fields_append:
  "flatten_fields L vals (fs @ gs) st =
     (case flatten_fields L vals fs st of
        Inl e \<Rightarrow> Inl e
      | Inr st' \<Rightarrow> flatten_fields L vals gs st')"
  by (induction fs arbitrary: st) (simp_all split: sum.splits)

lemma overlay_field_pages_cong:
  "pages st = pages st' \<Longrightarrow>
     map_sum id pages (overlay_field L vals st f) = map_sum id pages (overlay_field L vals st' f)"
  by (simp add: overlay_field_def put_page_def Let_def split: option.splits sum.splits)

lemma flatten_fields_pages_cong:
  "pages st = pages st' \<Longrightarrow>
     map_sum id pages (flatten_fields L vals fs st) =
     map_sum id pages (flatten_fields L vals fs st')"
proof (induction fs arbitrary: st st')
  case Nil
  then show ?case by simp
next
  case (Cons f fs)
  from Cons.prems have c: "map_sum id pages (overlay_field L vals st f) =
      map_sum id pages (overlay_field L vals st' f)"
    by (rule overlay_field_pages_cong)
  show ?case
  proof (cases "overlay_field L vals st f")
    case (Inl e)
    with c have "overlay_field L vals st' f = Inl e"
      by (cases "overlay_field L vals st' f") simp_all
    with Inl show ?thesis by simp
  next
    case (Inr s1)
    with c obtain s2 where s2: "overlay_field L vals st' f = Inr s2" and p: "pages s1 = pages s2"
      by (cases "overlay_field L vals st' f") simp_all
    from Cons.IH [OF p] Inr s2 show ?thesis by simp
  qed
qed


lemma field_draw_placed:
  "op \<in> set (field_draw L vals H f) \<Longrightarrow>
     op_x op = pos_x (position f)
   \<and> op_y op = H - pos_y (position f) - elementHeight op
   \<and> half_scaled op
   \<and> (field_type f \<noteq> Signature \<longrightarrow> is_text_draw op)"
  by (auto simp: field_draw_def pdf_y_def split: JsValue.splits if_splits option.splits)

text \<open>
  C2. When the loop over any list of fields returns, every page of the document holds
  what it held, followed by the draws of the fields of that page, field by field in
  template order: for each field the draw is its own (\<open>field_draw\<close>: the text of its
  value, or the decoded image of a signature value). Every such draw is at the field's
  \<open>x\<close> unchanged and at \<open>y = H - field.y - elementHeight\<close>, where \<open>H\<close> is the height of the
  page and \<open>elementHeight\<close> is 0 for a text draw and, for an image draw, the height the
  image is drawn with, half its native height (the width is half the native width); a
  text or date field only gets a text draw.
\<close>

theorem flatten_fields_placement:
  assumes "flatten_fields L vals fs st = Inr out" and "i < length (pages st)"
  shows "page_content (pages out ! i) =
           page_content (pages st ! i) @
             concat (map (field_draw L vals (page_height (pages st ! i))) (filter (on_page i) fs))
       \<and> page_height (pages out ! i) = page_height (pages st ! i)
       \<and> (\<forall>f H. \<forall>op \<in> set (field_draw L vals H f).
             op_x op = pos_x (position f)
           \<and> op_y op = H - pos_y (position f) - elementHeight op
           \<and> half_scaled op
           \<and> (field_type f \<noteq> Signature \<longrightarrow> is_text_draw op))"
proof -
  from flatten_fields_Inr [OF assms(1)] assms(2)
  have "pages out ! i =
          (pages st ! i)\<lparr>page_content := page_content (pages st ! i) @
             concat (map (field_draw L vals (page_height (pages st ! i)))
                       (filter (on_page i) fs))\<rparr>"
    by blast
  then have "page_content (pages out ! i) =
           page_content (pages st ! i) @
             concat (map (field_draw L vals (page_height (pages st ! i))) (filter (on_page i) fs))"
    and "page_height (pages out ! i) = page_height (pages st ! i)"
    by simp_all
  then show ?thesis
    using field_draw_placed [of _ L vals] by blast
qed

lemma downloadSignedPdf_loaded:
  assumes "download S (t_file_path (doc_template doc)) = (Some pdfBytes, None)"
    and "load L pdfBytes = Some pgs"
  shows "downloadSignedPdf S L doc =
           flatten_fields L (form_values doc) (t_fields (doc_template doc))
             \<lparr>pages = pgs, console = []\<rparr>"
  using assms by (simp add: downloadSignedPdf_def)

lemma with_fields_simps [simp]:
  "t_fields (doc_template (with_fields doc fs)) = fs"
  "t_file_path (doc_template (with_fields doc fs)) = t_file_path (doc_template doc)"
  "form_values (with_fields doc fs) = form_values doc"
  by (simp_all add: with_fields_def)

lemma overlay_field_bad_signature:
  assumes "field_type f = Signature" and "vals (label f) = Some v" and "v \<noteq> []"
    and "image_of L v = None"
  shows "\<exists>st'. overlay_field L vals st f = Inr st' \<and> pages st' = pages st"
  using assms
  by (simp add: overlay_field_def js_get_def value_or_empty_def truthy_def embed_signature_def
      decode_signature_image_of Let_def split: option.splits)

lemma field_draw_bad_signature:
  assumes "field_type f = Signature" and "vals (label f) = Some v" and "v \<noteq> []"
    and "image_of L v = None"
  shows "field_draw L vals H f = []" and "\<not> text_draw_throws L vals n f"
  using assms by (simp_all add: field_draw_def text_draw_throws_def js_get_def)

lemma flatten_fields_bad_signature:
  assumes "field_type f = Signature" and "vals (label f) = Some v" and "v \<noteq> []"
    and "image_of L v = None"
  shows "map_sum id pages (flatten_fields L vals (fs1 @ f # fs2) st) =
         map_sum id pages (flatten_fields L vals (fs1 @ fs2) st)"
proof (cases "flatten_fields L vals fs1 st")
  case (Inl e)
  then show ?thesis by (simp add: flatten_fields_append)
next
  case (Inr st1)
  from overlay_field_bad_signature [where vals = vals and f = f and st = st1, OF assms]
  obtain st2 where s: "overlay_field L vals st1 f = Inr st2" and p: "pages st2 = pages st1"
    by blast
  from flatten_fields_pages_cong [OF p, of L vals fs2] Inr s
  show ?thesis by (simp add: flatten_fields_append)
qed

lemma concat_without:
  "field_draw L vals H f = [] \<or> \<not> P f \<Longrightarrow>
     concat (map (field_draw L vals H) (filter P (fs1 @ f # fs2))) =
     concat (map (field_draw L vals H) (filter P (fs1 @ fs2)))"
  by auto

text \<open>
  C4. Let a signature field hold a payload that does not decode (\<open>atob\<close> or \<open>embedPng\<close>
  throws), with the source document loaded. The outcome of \<open>downloadSignedPdf\<close>, pages
  or what it rethrows, is the outcome of the run on the same inputs without that field:
  the failure changes nothing outside its own iteration. When no other field makes the
  loop throw, the run returns, and every page holds what it held followed by the draws of
  all the other fields of that page, each as the placement rule gives it.
\<close>

theorem malformed_signature_confined:
  assumes fs: "t_fields (doc_template doc) = fs1 @ f # fs2"
    and sig: "field_type f = Signature"
    and v: "form_values doc (label f) = Some v" "v \<noteq> []"
    and bad: "image_of L v = None"
    and dl: "download S (t_file_path (doc_template doc)) = (Some pdfBytes, None)"
    and ld: "load L pdfBytes = Some pgs"
  shows "map_sum id pages (downloadSignedPdf S L doc) =
         map_sum id pages (downloadSignedPdf S L (with_fields doc (fs1 @ fs2)))
       \<and> ((\<forall>g \<in> set (fs1 @ fs2). \<not> text_draw_throws L (form_values doc) (length pgs) g) \<longrightarrow>
            (\<exists>out. downloadSignedPdf S L doc = Inr out
               \<and> length (pages out) = length pgs
               \<and> (\<forall>i < length pgs.
                    pages out ! i =
                      (pgs ! i)\<lparr>page_content := page_content (pgs ! i) @
                         concat (map (field_draw L (form_values doc) (page_height (pgs ! i)))
                                   (filter (on_page i) (fs1 @ fs2)))\<rparr>)))"
proof (intro conjI impI)
  let ?st = "\<lparr>pages = pgs, console = []\<rparr>"
  let ?vals = "form_values doc"
  have a: "downloadSignedPdf S L doc = flatten_fields L ?vals (fs1 @ f # fs2) ?st"
    using downloadSignedPdf_loaded [OF dl ld] fs by simp
  have b: "downloadSignedPdf S L (with_fields doc (fs1 @ fs2)) =
             flatten_fields L ?vals (fs1 @ fs2) ?st"
    using downloadSignedPdf_loaded [of S "with_fields doc (fs1 @ fs2)" pdfBytes L pgs] dl ld
    by simp
  show "map_sum id pages (downloadSignedPdf S L doc) =
         map_sum id pages (downloadSignedPdf S L (with_fields doc (fs1 @ fs2)))"
    unfolding a b using sig v bad by (rule flatten_fields_bad_signature)
  assume others: "\<forall>g \<in> set (fs1 @ fs2). \<not> text_draw_throws L ?vals (length pgs) g"
  note d = field_draw_bad_signature [where vals = "?vals" and f = f, OF sig v bad]
  from others d(2) [of "length pgs"]
  have "\<forall>g \<in> set (fs1 @ f # fs2). \<not> text_draw_throws L ?vals (length (pages ?st)) g"
    by auto
  from flatten_fields_total [OF this] obtain out
    where out: "flatten_fields L ?vals (fs1 @ f # fs2) ?st = Inr out" by blast
  note c = flatten_fields_Inr [OF out]
  have "\<forall>i < length pgs.
          pages out ! i =
            (pgs ! i)\<lparr>page_content := page_content (pgs ! i) @
               concat (map (field_draw L ?vals (page_height (pgs ! i)))
                         (filter (on_page i) (fs1 @ fs2)))\<rparr>"
  proof (intro allI impI)
    fix i assume "i < length pgs"
    with c have "pages out ! i =
            (pgs ! i)\<lparr>page_content := page_content (pgs ! i) @
               concat (map (field_draw L ?vals (page_height (pgs ! i)))
                         (filter (on_page i) (fs1 @ f # fs2)))\<rparr>"
      by simp
    moreover have "concat (map (field_draw L ?vals (page_height (pgs ! i)))
                         (filter (on_page i) (fs1 @ f # fs2))) =
        concat (map (field_draw L ?vals (page_height (pgs ! i)))
                         (filter (on_page i) (fs1 @ fs2)))"
      using d(1) by (intro concat_without) simp
    ultimately show "pages out ! i =
            (pgs ! i)\<lparr>page_content := page_content (pgs ! i) @
               concat (map (field_draw L ?vals (page_height (pgs ! i)))
                         (filter (on_page i) (fs1 @ fs2)))\<rparr>"
      by simp
  qed
  with c out a
  show "\<exists>out. downloadSignedPdf S L doc = Inr out
               \<and> length (pages out) = length pgs
               \<and> (\<forall>i < length pgs.
                    pages out ! i =
                      (pgs ! i)\<lparr>page_content := page_content (pgs ! i) @
                         concat (map (field_draw L (form_values doc) (page_height (pgs ! i)))
                                   (filter (on_page i) (fs1 @ fs2)))\<rparr>)"
    by simp
qed

lemma flatten_fields_skip:
  assumes "pageNumber (position f) < 1 \<or> int (length (pages st)) < pageNumber (position f)"
  shows "flatten_fields L vals (fs1 @ f # fs2) st = flatten_fields L vals (fs1 @ fs2) st"
proof (cases "flatten_fields L vals fs1 st")
  case (Inl e)
  then show ?thesis by (simp add: flatten_fields_append)
next
  case (Inr st1)
  from flatten_fields_Inr [OF Inr] assms
  have "page_at (pages st1) (pageNumber (position f)) = None"
    by (simp add: page_at_None_iff)
  then have "overlay_field L vals st1 f = Inr st1"
    by (rule overlay_field_skip)
  with Inr show ?thesis by (simp add: flatten_fields_append)
qed

text \<open>
  C5. Let a field have a page number above the page count of the loaded source, or below
  1. Its iteration returns the document unchanged, and the outcome of \<open>downloadSignedPdf\<close>
  (pages and console, or what it rethrows) is identical to the outcome on the same inputs
  with that field left out of the template. When no other field makes the loop throw, the
  run returns with the draws of the other fields on every page.
\<close>

theorem unresolvable_page_skipped:
  assumes fs: "t_fields (doc_template doc) = fs1 @ f # fs2"
    and dl: "download S (t_file_path (doc_template doc)) = (Some pdfBytes, None)"
    and ld: "load L pdfBytes = Some pgs"
    and range: "int (length pgs) < pageNumber (position f) \<or> pageNumber (position f) < 1"
  shows "downloadSignedPdf S L doc = downloadSignedPdf S L (with_fields doc (fs1 @ fs2))
       \<and> (\<forall>st. length (pages st) = length pgs \<longrightarrow>
             overlay_field L (form_values doc) st f = Inr st)
       \<and> ((\<forall>g \<in> set (fs1 @ fs2). \<not> text_draw_throws L (form_values doc) (length pgs) g) \<longrightarrow>
            (\<exists>out. downloadSignedPdf S L doc = Inr out
               \<and> length (pages out) = length pgs
               \<and> (\<forall>i < length pgs.
                    pages out ! i =
                      (pgs ! i)\<lparr>page_content := page_content (pgs ! i) @
                         concat (map (field_draw L (form_values doc) (page_height (pgs ! i)))
                                   (filter (on_page i) (fs1 @ fs2)))\<rparr>)))"
proof (intro conjI impI allI)
  let ?st = "\<lparr>pages = pgs, console = []\<rparr>"
  let ?vals = "form_values doc"
  have a: "downloadSignedPdf S L doc = flatten_fields L ?vals (fs1 @ f # fs2) ?st"
    using downloadSignedPdf_loaded [OF dl ld] fs by simp
  have b: "downloadSignedPdf S L (with_fields doc (fs1 @ fs2)) =
             flatten_fields L ?vals (fs1 @ fs2) ?st"
    using downloadSignedPdf_loaded [of S "with_fields doc (fs1 @ fs2)" pdfBytes L pgs] dl ld
    by simp
  show e: "downloadSignedPdf S L doc = downloadSignedPdf S L (with_fields doc (fs1 @ fs2))"
    unfolding a b using range by (intro flatten_fields_skip) auto
  {
    fix st :: FlattenState
    assume "length (pages st) = length pgs"
    with range have "page_at (pages st) (pageNumber (position f)) = None"
      by (auto simp: page_at_None_iff)
    then show "overlay_field L ?vals st f = Inr st"
      by (rule overlay_field_skip)
  }
  assume others: "\<forall>g \<in> set (fs1 @ fs2). \<not> text_draw_throws L ?vals (length pgs) g"
  then have "\<forall>g \<in> set (fs1 @ fs2). \<not> text_draw_throws L ?vals (length (pages ?st)) g"
    by simp
  from flatten_fields_total [OF this] obtain out
    where out: "flatten_fields L ?vals (fs1 @ fs2) ?st = Inr out" by blast
  from flatten_fields_Inr [OF out] out e b
  show "\<exists>out. downloadSignedPdf S L doc = Inr out
               \<and> length (pages out) = length pgs
               \<and> (\<forall>i < length pgs.
                    pages out ! i =
                      (pgs ! i)\<lparr>page_content := page_content (pgs ! i) @
                         concat (map (field_draw L (form_values doc) (page_height (pgs ! i)))
                                   (filter (on_page i) (fs1 @ fs2)))\<rparr>)"
    by simp
qed



text \<open>The sample data under the placement rule.\<close>

lemma sample_signature_image:
  "image_of sample_lib sample_signature = Some \<lparr>png_width = 200, png_height = 80\<rparr>"
  by (simp add: image_of_def payload_of_def sample_signature_def sample_base64_def
      sample_lib_def)

lemma not_an_image: "image_of sample_lib ''not an image'' = None"
  by (simp add: image_of_def payload_of_def sample_lib_def sample_base64_def)

lemma draws_Jane_Doe: "canDrawText sample_lib ''Jane Doe''"
  by (simp add: sample_lib_def printable_def)



lemma sample_signature_nonempty: "sample_signature \<noteq> []"
  by (simp add: sample_signature_def)

lemma sample_draws:
  "field_draw sample_lib sample_values 792 name_field =
     [DrawText ''Jane Doe'' 50 692 12 Helvetica (rgb 0 0 0)]"
  "field_draw sample_lib sample_values 792 sig_field =
     [DrawImage \<lparr>png_width = 200, png_height = 80\<rparr> 50 452 100 40]"
  "field_draw sample_lib bad_sig_values 792 name_field =
     [DrawText ''Jane Doe'' 50 692 12 Helvetica (rgb 0 0 0)]"
  using sample_signature_image sample_signature_nonempty
  by (simp_all add: field_draw_def js_get_def pdf_y_def sample_values_def bad_sig_values_def
      name_field_def sig_field_def)

lemma sample_no_throw:
  "\<not> text_draw_throws sample_lib sample_values n name_field"
  "\<not> text_draw_throws sample_lib sample_values n sig_field"
  "\<not> text_draw_throws sample_lib bad_sig_values n name_field"
  using draws_Jane_Doe sample_signature_nonempty
  by (simp_all add: text_draw_throws_def js_get_def sample_values_def bad_sig_values_def
      name_field_def sig_field_def)

text \<open>Scenario A of the spec on a page of height 792.\<close>

lemma scenario_A_run:
  "flatten_fields sample_lib sample_values [name_field, sig_field] sample_flatten_state =
     Inr \<lparr>pages = [\<lparr>page_height = 792,
                     page_content =
                       [DrawText ''Jane Doe'' 50 692 12 Helvetica (rgb 0 0 0),
                        DrawImage \<lparr>png_width = 200, png_height = 80\<rparr> 50 452 100 40]\<rparr>],
          console = []\<rparr>"
proof -
  have p: "page_at [sample_page] 1 = Some sample_page"
    by (simp add: page_at_def)
  have a: "overlay_field sample_lib sample_values sample_flatten_state name_field =
      Inr \<lparr>pages = [\<lparr>page_height = 792,
                     page_content = [DrawText ''Jane Doe'' 50 692 12 Helvetica (rgb 0 0 0)]\<rparr>],
          console = []\<rparr>"
    using overlay_field_resolved [of sample_flatten_state name_field sample_page
        sample_lib sample_values] p sample_draws(1) sample_no_throw(1)
    by (simp add: sample_flatten_state_def name_field_def sample_page_def put_page_def)
  let ?st1 = "\<lparr>pages = [\<lparr>page_height = 792,
                     page_content = [DrawText ''Jane Doe'' 50 692 12 Helvetica (rgb 0 0 0)]\<rparr>],
          console = []\<rparr>"
  have "overlay_field sample_lib sample_values ?st1 sig_field =
      Inr \<lparr>pages = [\<lparr>page_height = 792,
                     page_content =
                       [DrawText ''Jane Doe'' 50 692 12 Helvetica (rgb 0 0 0),
                        DrawImage \<lparr>png_width = 200, png_height = 80\<rparr> 50 452 100 40]\<rparr>],
          console = []\<rparr>"
    using overlay_field_resolved [of ?st1 sig_field
        "\<lparr>page_height = 792,
          page_content = [DrawText ''Jane Doe'' 50 692 12 Helvetica (rgb 0 0 0)]\<rparr>"
        sample_lib sample_values] sample_draws(2) sample_no_throw(2)
    by (simp add: sig_field_def page_at_def put_page_def)
  with a show ?thesis by simp
qed

theorem flatten_fields_placement_witness:
  "flatten_fields sample_lib sample_values [name_field, sig_field] sample_flatten_state =
     Inr \<lparr>pages = [\<lparr>page_height = 792,
                     page_content =
                       [DrawText ''Jane Doe'' 50 692 12 Helvetica (rgb 0 0 0),
                        DrawImage \<lparr>png_width = 200, png_height = 80\<rparr> 50 452 100 40]\<rparr>],
          console = []\<rparr>
   \<and> 0 < length (pages sample_flatten_state)
   \<and> page_content (pages sample_flatten_state ! 0) @
       concat (map (field_draw sample_lib sample_values
                      (page_height (pages sample_flatten_state ! 0)))
                 (filter (on_page 0) [name_field, sig_field])) =
       [DrawText ''Jane Doe'' 50 692 12 Helvetica (rgb 0 0 0),
        DrawImage \<lparr>png_width = 200, png_height = 80\<rparr> 50 452 100 40]
   \<and> op_x (DrawImage \<lparr>png_width = 200, png_height = 80\<rparr> 50 452 100 40) =
       pos_x (position sig_field)
   \<and> op_y (DrawImage \<lparr>png_width = 200, png_height = 80\<rparr> 50 452 100 40) =
       792 - pos_y (position sig_field)
         - elementHeight (DrawImage \<lparr>png_width = 200, png_height = 80\<rparr> 50 452 100 40)
   \<and> half_scaled (DrawImage \<lparr>png_width = 200, png_height = 80\<rparr> 50 452 100 40)"
proof -
  have i: "0 < length (pages sample_flatten_state)"
    by (simp add: sample_flatten_state_def)
  note t = flatten_fields_placement [OF scenario_A_run i]
  from t have c: "page_content (pages sample_flatten_state ! 0) @
       concat (map (field_draw sample_lib sample_values
                      (page_height (pages sample_flatten_state ! 0)))
                 (filter (on_page 0) [name_field, sig_field])) =
       [DrawText ''Jane Doe'' 50 692 12 Helvetica (rgb 0 0 0),
        DrawImage \<lparr>png_width = 200, png_height = 80\<rparr> 50 452 100 40]"
    by simp
  have "DrawImage \<lparr>png_width = 200, png_height = 80\<rparr> 50 452 100 40
          \<in> set (field_draw sample_lib sample_values 792 sig_field)"
    by (simp add: sample_draws)
  with t have "op_x (DrawImage \<lparr>png_width = 200, png_height = 80\<rparr> 50 452 100 40) =
       pos_x (position sig_field)
   \<and> op_y (DrawImage \<lparr>png_width = 200, png_height = 80\<rparr> 50 452 100 40) =
       792 - pos_y (position sig_field)
         - elementHeight (DrawImage \<lparr>png_width = 200, png_height = 80\<rparr> 50 452 100 40)
   \<and> half_scaled (DrawImage \<lparr>png_width = 200, png_height = 80\<rparr> 50 452 100 40)"
    by blast
  with scenario_A_run i c show ?thesis by blast
qed

theorem malformed_signature_confined_witness:
  "t_fields (doc_template (sample_document bad_sig_values [name_field, sig_field])) =
     [name_field] @ sig_field # []
   \<and> field_type sig_field = Signature
   \<and> form_values (sample_document bad_sig_values [name_field, sig_field]) (label sig_field) =
       Some ''not an image''
   \<and> ''not an image'' \<noteq> []
   \<and> image_of sample_lib ''not an image'' = None
   \<and> download sample_storage
        (t_file_path (doc_template (sample_document bad_sig_values [name_field, sig_field]))) =
       (Some sample_pdf, None)
   \<and> load sample_lib sample_pdf = Some [sample_page]
   \<and> \<not> text_draw_throws sample_lib bad_sig_values (length [sample_page]) name_field
   \<and> map_sum id pages (downloadSignedPdf sample_storage sample_lib
         (sample_document bad_sig_values [name_field, sig_field])) =
       map_sum id pages (downloadSignedPdf sample_storage sample_lib
         (with_fields (sample_document bad_sig_values [name_field, sig_field])
            ([name_field] @ [])))
   \<and> (\<exists>out. downloadSignedPdf sample_storage sample_lib
                (sample_document bad_sig_values [name_field, sig_field]) = Inr out
          \<and> pages out =
              [\<lparr>page_height = 792,
                page_content = [DrawText ''Jane Doe'' 50 692 12 Helvetica (rgb 0 0 0)]\<rparr>])"
proof -
  let ?doc = "sample_document bad_sig_values [name_field, sig_field]"
  have fs: "t_fields (doc_template ?doc) = [name_field] @ sig_field # []"
    by (simp add: sample_document_def)
  have sig: "field_type sig_field = Signature"
    by (simp add: sig_field_def)
  have v: "form_values ?doc (label sig_field) = Some ''not an image''"
    by (simp add: sample_document_def bad_sig_values_def sig_field_def)
  have vals: "form_values ?doc = bad_sig_values"
    by (simp add: sample_document_def)
  have ne: "''not an image'' \<noteq> []" by simp
  have dl: "download sample_storage (t_file_path (doc_template ?doc)) = (Some sample_pdf, None)"
    by (simp add: sample_document_def sample_template_def sample_storage_def)
  have ld: "load sample_lib sample_pdf = Some [sample_page]"
    by (simp add: sample_lib_def sample_page_def)
  have nt: "\<not> text_draw_throws sample_lib bad_sig_values (length [sample_page]) name_field"
    by (rule sample_no_throw)
  note t = malformed_signature_confined [OF fs sig v ne not_an_image dl ld]
  from t nt vals obtain out where
    o: "downloadSignedPdf sample_storage sample_lib ?doc = Inr out"
    and l: "length (pages out) = length [sample_page]"
    and c: "\<forall>i < length [sample_page].
              pages out ! i =
                ([sample_page] ! i)\<lparr>page_content := page_content ([sample_page] ! i) @
                   concat (map (field_draw sample_lib bad_sig_values
                                  (page_height ([sample_page] ! i)))
                             (filter (on_page i) ([name_field] @ [])))\<rparr>"
    by auto
  from c have "pages out ! 0 =
      \<lparr>page_height = 792,
       page_content = [DrawText ''Jane Doe'' 50 692 12 Helvetica (rgb 0 0 0)]\<rparr>"
    by (simp add: sample_page_def on_page_def name_field_def [THEN arg_cong [of _ _ position]]
        sample_draws(3))
  with l have "pages out =
      [\<lparr>page_height = 792,
        page_content = [DrawText ''Jane Doe'' 50 692 12 Helvetica (rgb 0 0 0)]\<rparr>]"
    by (cases "pages out") simp_all
  with o t fs sig v ne not_an_image dl ld nt show ?thesis by blast
qed


theorem unresolvable_page_skipped_witness:
  "t_fields (doc_template (sample_document sample_values [name_field, stray_field, sig_field])) =
     [name_field] @ stray_field # [sig_field]
   \<and> download sample_storage
        (t_file_path (doc_template
           (sample_document sample_values [name_field, stray_field, sig_field]))) =
       (Some sample_pdf, None)
   \<and> load sample_lib sample_pdf = Some [sample_page]
   \<and> int (length [sample_page]) < pageNumber (position stray_field)
   \<and> \<not> text_draw_throws sample_lib sample_values (length [sample_page]) name_field
   \<and> \<not> text_draw_throws sample_lib sample_values (length [sample_page]) sig_field
   \<and> downloadSignedPdf sample_storage sample_lib
         (sample_document sample_values [name_field, stray_field, sig_field]) =
       downloadSignedPdf sample_storage sample_lib
         (with_fields (sample_document sample_values [name_field, stray_field, sig_field])
            ([name_field] @ [sig_field]))
   \<and> overlay_field sample_lib sample_values sample_flatten_state stray_field =
       Inr sample_flatten_state
   \<and> (\<exists>out. downloadSignedPdf sample_storage sample_lib
                (sample_document sample_values [name_field, stray_field, sig_field]) = Inr out
          \<and> length (pages out) = length [sample_page])"
proof -
  let ?doc = "sample_document sample_values [name_field, stray_field, sig_field]"
  have fs: "t_fields (doc_template ?doc) = [name_field] @ stray_field # [sig_field]"
    by (simp add: sample_document_def)
  have vals: "form_values ?doc = sample_values"
    by (simp add: sample_document_def)
  have dl: "download sample_storage (t_file_path (doc_template ?doc)) = (Some sample_pdf, None)"
    by (simp add: sample_document_def sample_template_def sample_storage_def)
  have ld: "load sample_lib sample_pdf = Some [sample_page]"
    by (simp add: sample_lib_def sample_page_def)
  have r: "int (length [sample_page]) < pageNumber (position stray_field)"
    by (simp add: stray_field_def)
  then have range: "int (length [sample_page]) < pageNumber (position stray_field)
        \<or> pageNumber (position stray_field) < 1" ..
  have l: "length (pages sample_flatten_state) = length [sample_page]"
    by (simp add: sample_flatten_state_def)
  note n = sample_no_throw(1,2) [of "length [sample_page]"]
  note t = unresolvable_page_skipped [OF fs dl ld range]
  from t l vals have "overlay_field sample_lib sample_values sample_flatten_state stray_field =
       Inr sample_flatten_state"
    by simp
  moreover have "\<exists>out. downloadSignedPdf sample_storage sample_lib ?doc = Inr out
          \<and> length (pages out) = length [sample_page]"
  proof -
    have "\<forall>g \<in> set ([name_field] @ [sig_field]).
            \<not> text_draw_throws sample_lib (form_values ?doc) (length [sample_page]) g"
      using n by (simp add: vals)
    with t show ?thesis by blast
  qed
  ultimately show ?thesis
    using t fs dl ld r n by blast
qed



section \<open>The signing session: properties\<close>

text \<open>
  C3. When a required field of the loaded template is missing or blank, \<open>handleSave\<close>
  issues no request to the store: the \<open>signed_documents\<close> table and the list of requests
  are what they were. With a template id present, all it does is what \<open>validateForm\<close>
  does to the state (nothing, when \<open>validateForm\<close> throws), so the rejection comes before
  any insert.
\<close>

theorem handleSave_rejects_before_insert:
  assumes "template (ui w) = Some t"
    and "\<exists>f \<in> set (t_fields t). required f \<and> \<not> has_value (formValues (ui w)) f"
  shows "signed_documents (handleSave B w) = signed_documents w
       \<and> requests (handleSave B w) = requests w
       \<and> (\<not> falsy (templateId (ui w)) \<longrightarrow>
            handleSave B w =
              (case validateForm (ui w) of
                 Inl e \<Rightarrow> w
               | Inr r \<Rightarrow> w\<lparr>ui := snd r\<rparr>))"
proof -
  from validateForm_rejects [OF assms]
  show ?thesis
  proof
    assume "\<exists>e. validateForm (ui w) = Inl e"
    then obtain e where v: "validateForm (ui w) = Inl e" ..
    show ?thesis
      by (simp add: handleSave_def Let_def v assms(1))
  next
    assume "\<exists>s'. validateForm (ui w) = Inr (False, s')"
    then obtain s' where v: "validateForm (ui w) = Inr (False, s')" ..
    show ?thesis
      by (simp add: handleSave_def Let_def v assms(1))
  qed
qed

text \<open>
  With a template loaded, \<open>handleNextField\<close> below the last field moves the index to
  exactly the next one and leaves the template, hence the field order, as it is; at the
  last field (or with no field after the current one) it changes nothing. A click on
  \<open>Next Field\<close> changes nothing while \<open>formValues\<close> reads falsy at the label of the
  current field, and a click never does anything other than \<open>handleNextField\<close>.
\<close>

lemma handleNextField_sequential:
  assumes "template s = Some t"
  shows "(int (currentFieldIndex s) < int (length (t_fields t)) - 1 \<longrightarrow>
            currentFieldIndex (handleNextField s) = currentFieldIndex s + 1
          \<and> template (handleNextField s) = Some t)
       \<and> (length (t_fields t) \<le> currentFieldIndex s + 1 \<longrightarrow> handleNextField s = s)
       \<and> (\<not> truthy (js_get (formValues s) (label (t_fields t ! currentFieldIndex s))) \<longrightarrow>
            clickNextField s = s)
       \<and> (clickNextField s = s \<or> clickNextField s = handleNextField s)"
proof (intro conjI impI)
  assume "int (currentFieldIndex s) < int (length (t_fields t)) - 1"
  with assms show "currentFieldIndex (handleNextField s) = currentFieldIndex s + 1"
    by (simp add: handleNextField_def Let_def)
  from assms show "template (handleNextField s) = Some t"
    by (simp add: handleNextField_def Let_def)
next
  assume "length (t_fields t) \<le> currentFieldIndex s + 1"
  with assms show "handleNextField s = s"
    by (simp add: handleNextField_def)
next
  assume "\<not> truthy (js_get (formValues s) (label (t_fields t ! currentFieldIndex s)))"
  with assms show "clickNextField s = s"
    by (simp add: clickNextField_def action_button_def)
next
  show "clickNextField s = s \<or> clickNextField s = handleNextField s"
    by (simp add: clickNextField_def split: option.splits Button.splits bool.splits)
qed

text \<open>
  C6. The claim asks that advancing be blocked while the current field has no value. On
  the template whose first field is labelled \<open>constructor\<close>, with nothing entered and the
  first field current, \<open>formValues[label]\<close> is the inherited \<open>Object\<close> function, which is
  truthy: \<open>Next Field\<close> is rendered enabled, and the click moves the index to the second
  field although the first has no value.
\<close>

theorem next_field_enabled_without_value:
  "template constructor_state = Some constructor_template
   \<and> currentFieldIndex constructor_state = 0
   \<and> formValues constructor_state (label (t_fields constructor_template ! 0)) = None
   \<and> action_button constructor_state = Some (NextFieldButton False)
   \<and> currentFieldIndex (clickNextField constructor_state) = 1"
  by (simp add: clickNextField_def action_button_def form_rendered_def handleNextField_def
      js_get_def truthy_def falsy_def object_prototype_members_def constructor_state_def
      constructor_template_def constructor_field_def sig_field_def loaded_state_def
      initial_state_def)

text \<open>
  C7. The subscription callback leaves the world untouched for a notification whose
  \<open>template_id\<close> differs from the session's \<open>templateId\<close>. For a matching one it requests
  the full record and, with the record \<open>d\<close> returned, stores it, merges its
  \<open>form_values\<close> over the session's \<open>formValues\<close> and sets \<open>success\<close>.
\<close>

theorem on_insert_matching_only:
  "(Some (new_template_id p) \<noteq> templateId (ui w) \<longrightarrow> on_insert B p w = w)
   \<and> (Some (new_template_id p) = templateId (ui w) \<longrightarrow>
        getSignedDocument B (signed_documents w) (new_id p) = Inr (Some d) \<longrightarrow>
          on_insert B p w =
            w\<lparr>requests := requests w @ [SelectDocumentRequest (new_id p)],
              ui := (ui w)\<lparr>signedDocument := Some d,
                            formValues := formValues (ui w) ++ form_values d,
                            success := True\<rparr>\<rparr>)"
  by (simp add: on_insert_def)

lemma on_insert_signed_documents [simp]:
  "signed_documents (on_insert B p w) = signed_documents w"
  by (simp add: on_insert_def Let_def split: sum.splits option.splits)

lemma on_insert_templateId [simp]:
  "templateId (ui (on_insert B p w)) = templateId (ui w)"
  by (simp add: on_insert_def Let_def split: sum.splits option.splits)

lemma on_insert_formValues:
  "Some (new_template_id p) = templateId (ui w) \<Longrightarrow>
     formValues (ui (on_insert B p w)) =
       formValues (ui w) ++ fetched_values B (signed_documents w) p"
  by (simp add: on_insert_def fetched_values_def fetched_document_def Let_def
      split: sum.splits option.splits)

lemma on_insert_fetched:
  "Some (new_template_id p) = templateId (ui w) \<Longrightarrow>
   fetched_document B (signed_documents w) p = Some d \<Longrightarrow>
     success (ui (on_insert B p w)) \<and> signedDocument (ui (on_insert B p w)) = Some d"
  by (simp add: on_insert_def fetched_document_def Let_def split: sum.splits option.splits)

lemma run_snoc: "run B w (es @ [e]) = step B (run B w es) e"
  by (simp add: run_def)

lemma run_inserts_invariant:
  "signed_documents (run B w (map RealtimeInsert ps)) = signed_documents w
   \<and> templateId (ui (run B w (map RealtimeInsert ps))) = templateId (ui w)"
  by (induction ps rule: rev_induct) (simp_all add: run_def)

text \<open>
  C8. Deliver any sequence of matching notifications whose records are fetched, from any
  state (also one where \<open>success\<close> already holds). Each of them is merged in turn over the
  session's \<open>formValues\<close>, the last record fetched is the stored one and \<open>success\<close> holds:
  no notification is ignored or rejected.
\<close>

theorem every_matching_insert_accepted:
  assumes "\<forall>p \<in> set ps. Some (new_template_id p) = templateId (ui w)
                       \<and> fetched_document B (signed_documents w) p \<noteq> None"
  shows "formValues (ui (run B w (map RealtimeInsert ps))) =
           foldl (++) (formValues (ui w)) (map (fetched_values B (signed_documents w)) ps)
       \<and> (ps \<noteq> [] \<longrightarrow>
            success (ui (run B w (map RealtimeInsert ps)))
          \<and> signedDocument (ui (run B w (map RealtimeInsert ps))) =
              fetched_document B (signed_documents w) (last ps))"
  using assms
proof (induction ps rule: rev_induct)
  case Nil
  show ?case by (simp add: run_def)
next
  case (snoc p ps)
  let ?w1 = "run B w (map RealtimeInsert ps)"
  from snoc.prems have m: "Some (new_template_id p) = templateId (ui ?w1)"
    by (simp add: run_inserts_invariant)
  from snoc.prems obtain d where d: "fetched_document B (signed_documents ?w1) p = Some d"
    by (auto simp: run_inserts_invariant)
  have r: "run B w (map RealtimeInsert ps @ [RealtimeInsert p]) = on_insert B p ?w1"
    by (simp add: run_def)
  from snoc have ih: "formValues (ui ?w1) =
      foldl (++) (formValues (ui w)) (map (fetched_values B (signed_documents w)) ps)"
    by simp
  have "formValues (ui (on_insert B p ?w1)) =
          formValues (ui ?w1) ++ fetched_values B (signed_documents w) p"
    using on_insert_formValues [OF m] by (simp add: run_inserts_invariant)
  moreover have "success (ui (on_insert B p ?w1))
      \<and> signedDocument (ui (on_insert B p ?w1)) = Some d"
    using m d by (rule on_insert_fetched)
  ultimately show ?case
    using d by (simp add: r ih run_inserts_invariant)
qed


lemma handleSave_success: "success (ui (handleSave B w)) = success (ui w)"
proof (cases "validateForm (ui w)")
  case (Inl e)
  then show ?thesis by (simp add: handleSave_def Let_def)
next
  case (Inr r)
  obtain ok s' where r: "r = (ok, s')" by (cases r)
  from validateForm_state [of "ui w" ok s'] Inr r have "success s' = success (ui w)" by auto
  with Inr r show ?thesis
    by (simp add: handleSave_def Let_def save_caught_def
        split: bool.splits prod.splits option.splits list.splits sum.splits)
qed

lemma handleSave_templateId: "templateId (ui (handleSave B w)) = templateId (ui w)"
proof (cases "validateForm (ui w)")
  case (Inl e)
  then show ?thesis by (simp add: handleSave_def Let_def)
next
  case (Inr r)
  obtain ok s' where r: "r = (ok, s')" by (cases r)
  from validateForm_state [of "ui w" ok s'] Inr r have "templateId s' = templateId (ui w)"
    by auto
  with Inr r show ?thesis
    by (simp add: handleSave_def Let_def save_caught_def
        split: bool.splits prod.splits option.splits list.splits sum.splits)
qed

lemma loadTemplate_success: "success (ui (loadTemplate B w)) = success (ui w)"
  by (simp add: loadTemplate_def Let_def split: prod.splits option.splits)

lemma loadTemplate_templateId: "templateId (ui (loadTemplate B w)) = templateId (ui w)"
  by (simp add: loadTemplate_def Let_def split: prod.splits option.splits)

lemma step_success:
  "\<not> is_RealtimeInsert e \<Longrightarrow> success (ui (step B w e)) = success (ui w)"
  by (cases e)
     (simp_all add: handleResize_def handleFieldClick_def handleSignatureSave_def
        handleInputChange_def handleCancelSignature_def handleNextField_def Let_def
        loadTemplate_success handleSave_success split: option.splits)

lemma step_templateId: "templateId (ui (step B w e)) = templateId (ui w)"
  by (cases e)
     (simp_all add: handleResize_def handleFieldClick_def handleSignatureSave_def
        handleInputChange_def handleCancelSignature_def handleNextField_def Let_def
        loadTemplate_templateId handleSave_templateId split: option.splits)

lemma run_templateId: "templateId (ui (run B w es)) = templateId (ui w)"
  by (induction es rule: rev_induct) (simp_all add: run_snoc step_templateId, simp add: run_def)

lemma on_insert_success_source:
  "success (ui (on_insert B p w)) \<Longrightarrow>
     success (ui w) \<or> Some (new_template_id p) = templateId (ui w)"
  by (simp add: on_insert_def split: if_splits)

lemma run_success_source:
  assumes "\<not> success (ui w)" and "success (ui (run B w es))"
  shows "\<exists>p. RealtimeInsert p \<in> set es \<and> Some (new_template_id p) = templateId (ui w)"
  using assms(2)
proof (induction es rule: rev_induct)
  case Nil
  with assms(1) show ?case by (simp add: run_def)
next
  case (snoc e es)
  show ?case
  proof (cases "success (ui (run B w es))")
    case True
    with snoc.IH show ?thesis by auto
  next
    case False
    with snoc.prems have r: "is_RealtimeInsert e"
      using step_success [of e B "run B w es"] by (auto simp: run_snoc)
    then obtain p where e: "e = RealtimeInsert p" by (cases e) simp_all
    from snoc.prems False have "Some (new_template_id p) = templateId (ui (run B w es))"
      using on_insert_success_source [of B p "run B w es"] by (simp add: run_snoc e)
    then show ?thesis by (auto simp: e run_templateId)
  qed
qed

lemma handleSave_stores_document:
  assumes "template (ui w) = Some t" and "templateId (ui w) = Some tid" and "tid \<noteq> []"
    and "validateForm (ui w) = Inr (True, ui w)"
    and "insert_signed_document B (signed_documents w)
           \<lparr>ins_template_id = tid, ins_form_values = formValues (ui w), ins_user_id = None\<rparr> =
         (tbl, Some (r # rs), None)"
    and "row_id r \<noteq> []"
    and "getSignedDocument B tbl (row_id r) = Inr d"
  shows "signedDocument (ui (handleSave B w)) = d"
    and "\<not> isMobile (ui w) \<Longrightarrow>
           mobileSignatureComplete (ui (handleSave B w)) = mobileSignatureComplete (ui w)"
    and "signed_documents (handleSave B w) = tbl"
proof -
  note v = assms(4)
  show "signedDocument (ui (handleSave B w)) = d"
    using assms by (simp add: handleSave_def Let_def v falsy_def or_empty_def)
  show "\<not> isMobile (ui w) \<Longrightarrow>
           mobileSignatureComplete (ui (handleSave B w)) = mobileSignatureComplete (ui w)"
    using assms by (simp add: handleSave_def Let_def v falsy_def or_empty_def)
  show "signed_documents (handleSave B w) = tbl"
    using assms by (simp add: handleSave_def Let_def v falsy_def or_empty_def)
qed

text \<open>
  C10. \<open>handleSave\<close> never changes \<open>success\<close>. When it succeeds on a non-mobile device
  (template and id present, validation passed, the insert returned a row with an id and
  the record was fetched) it stores the fetched record in \<open>signedDocument\<close> and leaves
  \<open>mobileSignatureComplete\<close> alone. No event other than the delivery of an \<open>INSERT\<close>
  notification changes \<open>success\<close>; so a run that starts with \<open>success\<close> false and ends
  with it true contains the delivery of a notification for the session's template.
\<close>

theorem success_only_through_subscription:
  "success (ui (handleSave B w)) = success (ui w)
   \<and> (\<not> isMobile (ui w) \<and> template (ui w) = Some t \<and> templateId (ui w) = Some tid
        \<and> tid \<noteq> [] \<and> validateForm (ui w) = Inr (True, ui w)
        \<and> insert_signed_document B (signed_documents w)
             \<lparr>ins_template_id = tid, ins_form_values = formValues (ui w), ins_user_id = None\<rparr> =
           (tbl, Some (r # rs), None)
        \<and> row_id r \<noteq> [] \<and> getSignedDocument B tbl (row_id r) = Inr d
      \<longrightarrow> signedDocument (ui (handleSave B w)) = d
          \<and> mobileSignatureComplete (ui (handleSave B w)) = mobileSignatureComplete (ui w))
   \<and> (\<not> is_RealtimeInsert e \<longrightarrow> success (ui (step B w e)) = success (ui w))
   \<and> (\<not> success (ui w) \<and> success (ui (run B w es)) \<longrightarrow>
        (\<exists>p. RealtimeInsert p \<in> set es \<and> Some (new_template_id p) = templateId (ui w)))"
  using handleSave_success [of B w] handleSave_stores_document(1,2) [of w t tid B tbl r rs d]
    step_success [of e B w] run_success_source [of w B es]
  by blast


lemma loaded_state_simps [simp]:
  "template (loaded_state vals) = Some sample_template"
  "templateId (loaded_state vals) = Some ''t1''"
  "formValues (loaded_state vals) = vals"
  "currentFieldIndex (loaded_state vals) = 0"
  "success (loaded_state vals) = False"
  "isMobile (loaded_state vals) = False"
  "isSigningMode (loaded_state vals) = False"
  "pdfUrl (loaded_state vals) = Some ''https://store/contract.pdf''"
  by (simp_all add: loaded_state_def initial_state_def)

lemma trim_Nil_iff: "trim s = [] \<longleftrightarrow> list_all is_whitespace s"
proof -
  have "trim s = [] \<longleftrightarrow> dropWhile is_whitespace s = []"
    by (auto simp: trim_def dropWhile_eq_Nil_conv dest: set_dropWhileD)
       (metis dropWhile_eq_Nil_conv hd_dropWhile list.set_sel(1))
  then show ?thesis
    by (simp add: dropWhile_eq_Nil_conv list_all_iff)
qed

lemma name_blank: "\<not> has_value blank_name_values name_field"
  by (simp add: has_value_def blank_name_values_def name_field_def trim_Nil_iff
      is_whitespace_def)

lemma sample_has_values:
  "has_value sample_values name_field" "has_value sample_values sig_field"
  "has_value blank_name_values sig_field"
  by (simp_all add: has_value_def sample_values_def blank_name_values_def name_field_def
      sig_field_def trim_Nil_iff is_whitespace_def sample_signature_def)

lemma sample_own:
  "js_get sample_values (label name_field) \<noteq> Inherited"
  "js_get sample_values (label sig_field) \<noteq> Inherited"
  "js_get blank_name_values (label name_field) \<noteq> Inherited"
  "js_get blank_name_values (label sig_field) \<noteq> Inherited"
  by (simp_all add: js_get_def sample_values_def blank_name_values_def name_field_def
      sig_field_def)

lemma blank_name_validation:
  "validateForm (loaded_state blank_name_values) =
     Inr (False, (loaded_state blank_name_values)
       \<lparr>error := Some ''Please complete all required fields: Name''\<rparr>)"
proof -
  let ?s = "loaded_state blank_name_values"
  have t: "template ?s = Some sample_template" by simp
  have "\<forall>f \<in> set (t_fields sample_template).
          required f \<longrightarrow> js_get (formValues ?s) (label f) \<noteq> Inherited"
    using sample_own(3,4) by (simp add: sample_template_def)
  from validateForm_total [OF t this] obtain ok s' where v: "validateForm ?s = Inr (ok, s')"
    by blast
  have r: "required name_field" by (simp add: name_field_def)
  have "\<not> ok"
    using validateForm_Inr(1) [OF t v] name_blank r by (auto simp: sample_template_def)
  from validateForm_Inr(3) [OF t v this] name_blank sample_has_values(3) r
  have "s' = ?s\<lparr>error := Some ''Please complete all required fields: Name''\<rparr>"
    by (simp add: sample_template_def validation_message_def name_field_def)
  with v \<open>\<not> ok\<close> show ?thesis by simp
qed

text \<open>Scenario B of the spec, submitted.\<close>

theorem handleSave_rejects_before_insert_witness:
  "template (ui (sample_world blank_name_values)) = Some sample_template
   \<and> (\<exists>f \<in> set (t_fields sample_template).
         required f \<and> \<not> has_value (formValues (ui (sample_world blank_name_values))) f)
   \<and> \<not> falsy (templateId (ui (sample_world blank_name_values)))
   \<and> signed_documents (handleSave sample_backend (sample_world blank_name_values)) = []
   \<and> requests (handleSave sample_backend (sample_world blank_name_values)) = []
   \<and> handleSave sample_backend (sample_world blank_name_values) =
       (sample_world blank_name_values)
         \<lparr>ui := (loaded_state blank_name_values)
                  \<lparr>error := Some ''Please complete all required fields: Name''\<rparr>\<rparr>"
proof -
  let ?w = "sample_world blank_name_values"
  have t: "template (ui ?w) = Some sample_template"
    by (simp add: sample_world_def)
  have m: "\<exists>f \<in> set (t_fields sample_template).
         required f \<and> \<not> has_value (formValues (ui ?w)) f"
    using name_blank by (simp add: sample_world_def sample_template_def name_field_def)
  have i: "\<not> falsy (templateId (ui ?w))"
    by (simp add: sample_world_def falsy_def)
  have e: "signed_documents ?w = []" "requests ?w = []"
    by (simp_all add: sample_world_def)
  have v: "validateForm (ui ?w) =
     Inr (False, (loaded_state blank_name_values)
       \<lparr>error := Some ''Please complete all required fields: Name''\<rparr>)"
    using blank_name_validation by (simp add: sample_world_def)
  from handleSave_rejects_before_insert [OF t m, of sample_backend] t m i e v
  show ?thesis by simp
qed

lemma fetch_first:
  "getSignedDocument sample_backend [first_row, second_row] ''d1'' =
     Inr (Some \<lparr>doc_id = ''d1'', template_id = ''t1'',
                form_values = row_form_values first_row,
                created_at = ''2024-01-01T00:00:00Z'', doc_template = sample_template\<rparr>)"
  by (simp add: getSignedDocument_def sample_backend_def first_row_def)

lemma fetch_second:
  "getSignedDocument sample_backend [first_row, second_row] ''d2'' =
     Inr (Some \<lparr>doc_id = ''d2'', template_id = ''t1'',
                form_values = row_form_values second_row,
                created_at = ''2024-01-01T00:00:05Z'', doc_template = sample_template\<rparr>)"
  by (simp add: getSignedDocument_def sample_backend_def first_row_def second_row_def)

text \<open>A notification for another template, then one for the session's template.\<close>

theorem on_insert_matching_only_witness:
  "Some (new_template_id other_payload) \<noteq> templateId (ui raced_world)
   \<and> on_insert sample_backend other_payload raced_world = raced_world
   \<and> Some (new_template_id first_payload) = templateId (ui raced_world)
   \<and> formValues (ui (on_insert sample_backend first_payload raced_world)) =
       formValues (ui raced_world) ++ row_form_values first_row
   \<and> success (ui (on_insert sample_backend first_payload raced_world))"
proof -
  let ?d = "\<lparr>doc_id = ''d1'', template_id = ''t1'',
                form_values = row_form_values first_row,
                created_at = ''2024-01-01T00:00:00Z'', doc_template = sample_template\<rparr>"
  have a: "Some (new_template_id other_payload) \<noteq> templateId (ui raced_world)"
    by (simp add: other_payload_def raced_world_def)
  have b: "Some (new_template_id first_payload) = templateId (ui raced_world)"
    by (simp add: first_payload_def raced_world_def)
  have c: "getSignedDocument sample_backend (signed_documents raced_world)
             (new_id first_payload) = Inr (Some ?d)"
    using fetch_first by (simp add: raced_world_def first_payload_def)
  from on_insert_matching_only [of other_payload raced_world sample_backend ?d]
    on_insert_matching_only [of first_payload raced_world sample_backend ?d] a b c
  show ?thesis by simp
qed

text \<open>Two completions for one template: the second overwrites \<open>Name\<close>.\<close>

theorem every_matching_insert_accepted_witness:
  "Some (new_template_id first_payload) = templateId (ui raced_world)
   \<and> fetched_document sample_backend (signed_documents raced_world) first_payload \<noteq> None
   \<and> Some (new_template_id second_payload) = templateId (ui raced_world)
   \<and> fetched_document sample_backend (signed_documents raced_world) second_payload \<noteq> None
   \<and> formValues (ui (run sample_backend raced_world
        (map RealtimeInsert [first_payload, second_payload]))) =
       (Map.empty ++ row_form_values first_row) ++ row_form_values second_row
   \<and> formValues (ui (run sample_backend raced_world
        (map RealtimeInsert [first_payload, second_payload]))) ''Name'' = Some ''John Roe''
   \<and> success (ui (run sample_backend raced_world
        (map RealtimeInsert [first_payload, second_payload])))
   \<and> map_option doc_id (signedDocument (ui (run sample_backend raced_world
        (map RealtimeInsert [first_payload, second_payload])))) = Some ''d2''"
proof -
  have f1: "fetched_document sample_backend (signed_documents raced_world) first_payload =
      Some \<lparr>doc_id = ''d1'', template_id = ''t1'',
                form_values = row_form_values first_row,
                created_at = ''2024-01-01T00:00:00Z'', doc_template = sample_template\<rparr>"
    using fetch_first by (simp add: fetched_document_def raced_world_def first_payload_def)
  have f2: "fetched_document sample_backend (signed_documents raced_world) second_payload =
      Some \<lparr>doc_id = ''d2'', template_id = ''t1'',
                form_values = row_form_values second_row,
                created_at = ''2024-01-01T00:00:05Z'', doc_template = sample_template\<rparr>"
    using fetch_second by (simp add: fetched_document_def raced_world_def second_payload_def)
  have h: "\<forall>p \<in> set [first_payload, second_payload].
       Some (new_template_id p) = templateId (ui raced_world)
     \<and> fetched_document sample_backend (signed_documents raced_world) p \<noteq> None"
    using f1 f2 by (simp add: first_payload_def second_payload_def raced_world_def)
  have n: "((Map.empty ++ row_form_values first_row) ++ row_form_values second_row) ''Name'' =
      Some ''John Roe''"
    by (simp add: second_row_def)
  from every_matching_insert_accepted [OF h] h f1 f2 n
  show ?thesis by (simp add: fetched_values_def raced_world_def)
qed


lemma sample_validates:
  "validateForm (loaded_state sample_values) = Inr (True, loaded_state sample_values)"
proof -
  let ?s = "loaded_state sample_values"
  have t: "template ?s = Some sample_template" by simp
  have "\<forall>f \<in> set (t_fields sample_template).
          required f \<longrightarrow> js_get (formValues ?s) (label f) \<noteq> Inherited"
    using sample_own(1,2) by (simp add: sample_template_def)
  from validateForm_total [OF t this] obtain ok s' where v: "validateForm ?s = Inr (ok, s')"
    by blast
  have ok: ok
    using validateForm_Inr(1) [OF t v] sample_has_values(1,2) by (simp add: sample_template_def)
  from validateForm_Inr(2) [OF t v ok] v ok show ?thesis by simp
qed

lemma sample_insert:
  "insert_signed_document sample_backend []
     \<lparr>ins_template_id = ''t1'', ins_form_values = sample_values, ins_user_id = None\<rparr> =
   ([first_row], Some (first_row # []), None)"
  by (simp add: sample_backend_def first_row_def Let_def)

lemma sample_fetch:
  "getSignedDocument sample_backend [first_row] ''d1'' =
     Inr (Some (sample_document sample_values [name_field, sig_field]))"
  by (simp add: getSignedDocument_def sample_backend_def first_row_def sample_document_def
      sample_template_def)

text \<open>A save on the primary device and the notification of its own insert.\<close>

theorem success_only_through_subscription_witness:
  "\<not> isMobile (ui (sample_world sample_values))
   \<and> validateForm (ui (sample_world sample_values)) = Inr (True, ui (sample_world sample_values))
   \<and> \<not> is_RealtimeInsert Save
   \<and> \<not> success (ui (sample_world sample_values))
   \<and> signedDocument (ui (handleSave sample_backend (sample_world sample_values))) =
       Some (sample_document sample_values [name_field, sig_field])
   \<and> \<not> success (ui (handleSave sample_backend (sample_world sample_values)))
   \<and> \<not> success (ui (step sample_backend (sample_world sample_values) Save))
   \<and> success (ui (run sample_backend (sample_world sample_values)
        [Save, RealtimeInsert first_payload]))
   \<and> (\<exists>p. RealtimeInsert p \<in> set [Save, RealtimeInsert first_payload]
         \<and> Some (new_template_id p) = templateId (ui (sample_world sample_values)))"
proof -
  let ?w = "sample_world sample_values"
  let ?d = "sample_document sample_values [name_field, sig_field]"
  have ui: "ui ?w = loaded_state sample_values" and tbl: "signed_documents ?w = []"
    by (simp_all add: sample_world_def)
  have m: "\<not> isMobile (ui ?w)" and t: "template (ui ?w) = Some sample_template"
    and i: "templateId (ui ?w) = Some ''t1''" and s: "\<not> success (ui ?w)"
    by (simp_all add: ui)
  have v: "validateForm (ui ?w) = Inr (True, ui ?w)"
    using sample_validates by (simp add: ui)
  have ins: "insert_signed_document sample_backend (signed_documents ?w)
      \<lparr>ins_template_id = ''t1'', ins_form_values = formValues (ui ?w), ins_user_id = None\<rparr> =
      ([first_row], Some (first_row # []), None)"
    using sample_insert by (simp add: ui tbl)
  have rid: "row_id first_row \<noteq> []" by (simp add: first_row_def)
  have f: "getSignedDocument sample_backend [first_row] (row_id first_row) = Inr (Some ?d)"
    using sample_fetch by (simp add: first_row_def)
  have ne: "''t1'' \<noteq> []" by simp
  have saved: "signed_documents (handleSave sample_backend ?w) = [first_row]"
    using handleSave_stores_document(3) [OF t i ne v ins rid f] .
  have "on_insert sample_backend first_payload (handleSave sample_backend ?w) =
      (handleSave sample_backend ?w)
        \<lparr>requests := requests (handleSave sample_backend ?w)
                      @ [SelectDocumentRequest (new_id first_payload)],
         ui := (ui (handleSave sample_backend ?w))
                 \<lparr>signedDocument := Some ?d,
                  formValues := formValues (ui (handleSave sample_backend ?w)) ++ form_values ?d,
                  success := True\<rparr>\<rparr>"
    using f by (simp add: on_insert_def handleSave_templateId i saved first_payload_def
        first_row_def)
  then have r: "success (ui (run sample_backend ?w [Save, RealtimeInsert first_payload]))"
    by (simp add: run_def)
  have p: "\<not> is_RealtimeInsert Save" by simp
  from success_only_through_subscription
         [of sample_backend ?w sample_template "''t1''" "[first_row]" first_row "[]" "Some ?d"
            Save "[Save, RealtimeInsert first_payload]"]
    m t i ne v ins rid f s r p
  show ?thesis by simp
qed

end
